theory Spec2Isabelle
  imports Complex_Main "HOL-Library.Sublist"
begin

section \<open>Tactical decision engine (cloudflare/src/tactical.py)\<close>

text \<open>
  Python floats are modelled as \<open>real\<close>: the engine only adds, multiplies, divides,
  compares and takes square roots, and the properties below are about the order of the
  results, not about rounding. Python exceptions are values of \<open>py_error\<close>.
\<close>

datatype py_error = ZeroDivisionError | TypeError | AttributeError | KeyError | ValueError

record position =
  pos_x :: real
  pos_y :: real
  pos_z :: real

record threat =
  entity_type :: string
  threat_position :: position
  distance :: real
  danger_level :: real
  estimated_health :: int

record hazard =
  hazard_type :: string
  hazard_position :: position
  severity :: real

text \<open>
  The \<open>reasoning\<close> field is an f-string; the model keeps which template was used and
  the values put into it, not the rendered text.
\<close>

datatype reasoning =
    FatalHazard string position
  | Danger string real
  | Engage string real
  | Caution string
  | Avoid string
  | AreaClear string

record tactical_decision =
  action :: string
  priority :: real
  reasoning :: reasoning
  target_position :: "position option"
  confidence :: real

text \<open>
  Entity and block dictionaries: every key may be missing (\<open>None\<close>); a key that is
  present holds a value of the type the engine computes with.
\<close>

record entity =
  ent_type :: "string option"
  ent_x :: "real option"
  ent_y :: "real option"
  ent_z :: "real option"
  ent_health :: "int option"

record block =
  blk_type :: "string option"
  blk_x :: "real option"
  blk_y :: "real option"
  blk_z :: "real option"
  blk_solid :: "bool option"

definition dict_get :: "'a option \<Rightarrow> 'a \<Rightarrow> 'a" where
  "dict_get field dflt = (case field of None \<Rightarrow> dflt | Some v \<Rightarrow> v)"

definition ENTITY_DANGER_RATINGS :: "(string \<times> real) list" where
  "ENTITY_DANGER_RATINGS =
    [(''warden'', 10), (''ender_dragon'', 10), (''wither'', 10), (''witch'', 6),
     (''vindicator'', 5), (''evoker'', 5), (''piglin_brute'', 5),
     (''creeper'', 4), (''zombie_pigman'', 4), (''blaze'', 7/2), (''ghast'', 7/2),
     (''bogged'', 3),
     (''skeleton'', 5/2), (''stray'', 5/2), (''spider'', 2), (''cave_spider'', 5/2),
     (''drowned'', 2), (''husk'', 2), (''phantom'', 5/2),
     (''zombie'', 3/2), (''zombie_villager'', 3/2), (''slime'', 1), (''silverfish'', 1),
     (''enderman'', 1/2),
     (''piglin'', 0), (''villager'', 0), (''animal'', 0)]"

definition rating_of :: "string \<Rightarrow> real" where
  "rating_of entity_ty = dict_get (map_of ENTITY_DANGER_RATINGS entity_ty) 1"

definition euclid :: "position \<Rightarrow> position \<Rightarrow> real" where
  "euclid a b = sqrt ((pos_x a - pos_x b)\<^sup>2 + (pos_y a - pos_y b)\<^sup>2 + (pos_z a - pos_z b)\<^sup>2)"

definition calculate_danger_level :: "real \<Rightarrow> real \<Rightarrow> int \<Rightarrow> real \<Rightarrow> real" where
  "calculate_danger_level base_danger dist_to agent_health combat_score =
    (let distance_factor = max 0 (1 - dist_to / 20);
         health_factor = (if agent_health < 5 then 2
                          else if agent_health < 10 then 3/2
                          else if agent_health > 15 then 4/5
                          else 1);
         combat_factor = max (1/2) (1 - combat_score * (1/2));
         raw_danger = base_danger * distance_factor * health_factor * combat_factor
     in min 1 (max 0 (raw_danger / 10)))"

definition entity_pos :: "entity \<Rightarrow> position" where
  "entity_pos e = \<lparr>pos_x = dict_get (ent_x e) 0, pos_y = dict_get (ent_y e) 0,
                   pos_z = dict_get (ent_z e) 0\<rparr>"

text \<open>The body of the loop of \<open>assess_threats\<close> up to the \<open>continue\<close>: the threat built
  from one entity.\<close>

definition entity_threat :: "position \<Rightarrow> int \<Rightarrow> real \<Rightarrow> entity \<Rightarrow> threat" where
  "entity_threat agent_position current_health combat_score e =
    (let ety = dict_get (ent_type e) ''unknown'';
         epos = entity_pos e;
         d = euclid agent_position epos
     in \<lparr>entity_type = ety, threat_position = epos, distance = d,
         danger_level = calculate_danger_level (rating_of ety) d current_health combat_score,
         estimated_health = dict_get (ent_health e) 20\<rparr>)"

fun collect_threats :: "position \<Rightarrow> int \<Rightarrow> real \<Rightarrow> entity list \<Rightarrow> threat list" where
  "collect_threats p h c [] = []"
| "collect_threats p h c (e # es) =
    (let t = entity_threat p h c e
     in if danger_level t < 3/10 then collect_threats p h c es
        else t # collect_threats p h c es)"

text \<open>\<open>xs.sort(key=k, reverse=True)\<close>: a stable sort by descending key (elements with
  equal keys keep their order).\<close>

definition sort_reverse :: "('a \<Rightarrow> real) \<Rightarrow> 'a list \<Rightarrow> 'a list" where
  "sort_reverse k xs = sort_key (\<lambda>v. - k v) xs"

definition assess_threats :: "position \<Rightarrow> entity list \<Rightarrow> int \<Rightarrow> real \<Rightarrow> threat list" where
  "assess_threats agent_position nearby_entities current_health combat_score =
    take 5 (sort_reverse danger_level
      (collect_threats agent_position current_health combat_score nearby_entities))"

text \<open>The table \<open>dangerous_blocks\<close>: block type to (hazard type, severity, radius).\<close>

definition dangerous_blocks :: "(string \<times> (string \<times> real \<times> int)) list" where
  "dangerous_blocks =
    [(''lava'', (''lava'', 1, 3)),
     (''fire'', (''fire'', 7/10, 2)),
     (''magma_block'', (''fire'', 1/2, 1)),
     (''campfire'', (''fire'', 3/10, 1)),
     (''sweet_berry_bush'', (''damage'', 1/5, 0)),
     (''wither_rose'', (''damage'', 2/5, 0)),
     (''cactus'', (''damage'', 3/10, 0))]"

definition block_pos :: "block \<Rightarrow> position" where
  "block_pos b = \<lparr>pos_x = dict_get (blk_x b) 0, pos_y = dict_get (blk_y b) 0,
                  pos_z = dict_get (blk_z b) 0\<rparr>"

text \<open>One round of the loop over the blocks: no hazard, one hazard, or the
  \<open>ZeroDivisionError\<close> of \<open>distance / info["radius"]\<close> when the radius is 0.\<close>

definition block_hazard :: "position \<Rightarrow> block \<Rightarrow> py_error + hazard option" where
  "block_hazard agent_position b =
    (case map_of dangerous_blocks (dict_get (blk_type b) '''') of
       None \<Rightarrow> Inr None
     | Some (ty, sev, radius) \<Rightarrow>
         (let d = euclid agent_position (block_pos b)
          in if d \<le> real_of_int radius
             then (if radius = 0 then Inl ZeroDivisionError
                   else Inr (Some \<lparr>hazard_type = ty, hazard_position = block_pos b,
                                    severity = sev * (1 - d / real_of_int radius)\<rparr>))
             else Inr None))"

fun block_hazards :: "position \<Rightarrow> block list \<Rightarrow> py_error + hazard list" where
  "block_hazards p [] = Inr []"
| "block_hazards p (b # bs) =
    (case block_hazard p b of
       Inl e \<Rightarrow> Inl e
     | Inr ho \<Rightarrow>
         (case block_hazards p bs of
            Inl e \<Rightarrow> Inl e
          | Inr hs \<Rightarrow> Inr (case ho of None \<Rightarrow> hs | Some h \<Rightarrow> h # hs)))"

definition fall_hazards :: "position \<Rightarrow> block list \<Rightarrow> hazard list" where
  "fall_hazards agent_position nearby_blocks =
    (let blocks_below = filter (\<lambda>b. dict_get (blk_y b) 0 < pos_y agent_position - 1) nearby_blocks;
         solid_blocks_below = filter (\<lambda>b. dict_get (blk_solid b) False) blocks_below
     in if length blocks_below > 5 \<and> length solid_blocks_below = 0
        then [\<lparr>hazard_type = ''fall'',
               hazard_position = \<lparr>pos_x = pos_x agent_position, pos_y = pos_y agent_position - 1,
                                  pos_z = pos_z agent_position\<rparr>,
               severity = min 1 (real (length blocks_below) / 10)\<rparr>]
        else [])"

definition suffocation_hazards :: "position \<Rightarrow> block list \<Rightarrow> hazard list" where
  "suffocation_hazards agent_position nearby_blocks =
    (let head_level_blocks = filter (\<lambda>b.
           \<bar>dict_get (blk_y b) 0 - pos_y agent_position - 1\<bar> < 1/2
           \<and> dict_get (blk_solid b) False
           \<and> \<bar>dict_get (blk_x b) 0 - pos_x agent_position\<bar> < 1/2
           \<and> \<bar>dict_get (blk_z b) 0 - pos_z agent_position\<bar> < 1/2) nearby_blocks
     in if head_level_blocks \<noteq> []
        then [\<lparr>hazard_type = ''suffocation'',
               hazard_position = \<lparr>pos_x = pos_x agent_position, pos_y = pos_y agent_position + 1,
                                  pos_z = pos_z agent_position\<rparr>,
               severity = 9/10\<rparr>]
        else [])"

definition detect_hazards :: "position \<Rightarrow> block list \<Rightarrow> py_error + hazard list" where
  "detect_hazards agent_position nearby_blocks =
    (case block_hazards agent_position nearby_blocks of
       Inl e \<Rightarrow> Inl e
     | Inr hs \<Rightarrow> Inr (take 5 (sort_reverse severity
         (fall_hazards agent_position nearby_blocks
          @ suffocation_hazards agent_position nearby_blocks @ hs))))"

text \<open>\<open>0 if c == 0 else (-1 if c > 0 else 1)\<close>\<close>

definition away :: "real \<Rightarrow> real" where
  "away c = (if c = 0 then 0 else if c > 0 then - 1 else 1)"

definition flee_from_hazard :: "hazard \<Rightarrow> tactical_decision" where
  "flee_from_hazard h =
    \<lparr>action = ''flee'', priority = 1,
     reasoning = FatalHazard (hazard_type h) (hazard_position h),
     target_position = Some \<lparr>pos_x = pos_x (hazard_position h) + away (pos_x (hazard_position h)) * 5,
                              pos_y = pos_y (hazard_position h),
                              pos_z = pos_z (hazard_position h) + away (pos_z (hazard_position h)) * 5\<rparr>,
     confidence = 1\<rparr>"

definition flee_from_threat :: "threat \<Rightarrow> tactical_decision" where
  "flee_from_threat t =
    \<lparr>action = ''flee'', priority = 9/10,
     reasoning = Danger (entity_type t) (distance t),
     target_position = Some \<lparr>pos_x = pos_x (threat_position t) + away (pos_x (threat_position t)) * 10,
                              pos_y = pos_y (threat_position t),
                              pos_z = pos_z (threat_position t) + away (pos_z (threat_position t)) * 10\<rparr>,
     confidence = 19/20\<rparr>"

definition combat_decision :: "threat \<Rightarrow> tactical_decision" where
  "combat_decision t =
    \<lparr>action = ''attack'', priority = danger_level t,
     reasoning = Engage (entity_type t) (distance t),
     target_position = Some \<lparr>pos_x = pos_x (threat_position t) + away (pos_x (threat_position t)) * 2,
                              pos_y = pos_y (threat_position t),
                              pos_z = pos_z (threat_position t) + away (pos_z (threat_position t)) * 2\<rparr>,
     confidence = 4/5\<rparr>"

definition hold_position :: "threat \<Rightarrow> tactical_decision" where
  "hold_position t =
    \<lparr>action = ''shield'', priority = danger_level t,
     reasoning = Caution (entity_type t),
     target_position = None, confidence = 7/10\<rparr>"

definition avoid_hazard :: "hazard \<Rightarrow> tactical_decision" where
  "avoid_hazard h =
    \<lparr>action = ''dodge'', priority = severity h,
     reasoning = Avoid (hazard_type h),
     target_position = Some \<lparr>pos_x = pos_x (hazard_position h) + away (pos_x (hazard_position h)) * 3,
                              pos_y = pos_y (hazard_position h),
                              pos_z = pos_z (hazard_position h) + away (pos_z (hazard_position h)) * 3\<rparr>,
     confidence = 4/5\<rparr>"

text \<open>\<open>current_mission or 'idle'\<close>: \<open>None\<close> and the empty string are both falsy.\<close>

definition continue_mission :: "string option \<Rightarrow> tactical_decision" where
  "continue_mission current_mission =
    \<lparr>action = ''hold'', priority = 1/10,
     reasoning = AreaClear (case current_mission of None \<Rightarrow> ''idle''
                            | Some m \<Rightarrow> if m = [] then ''idle'' else m),
     target_position = None, confidence = 9/10\<rparr>"

definition get_quick_decision ::
  "threat list \<Rightarrow> hazard list \<Rightarrow> real \<Rightarrow> string option \<Rightarrow> tactical_decision" where
  "get_quick_decision threats hazards combat_score current_mission =
    (case filter (\<lambda>h. severity h > 4/5) hazards of
       fh # _ \<Rightarrow> flee_from_hazard fh
     | [] \<Rightarrow>
    (case filter (\<lambda>t. danger_level t > 7/10) threats of
       ct # _ \<Rightarrow> (if combat_score > 3/5 then combat_decision ct else flee_from_threat ct)
     | [] \<Rightarrow>
    (if threats \<noteq> [] \<and> danger_level (hd threats) > 2/5
     then (if combat_score > 7/10 then combat_decision (hd threats)
           else hold_position (hd threats))
     else
    (case filter (\<lambda>h. severity h > 2/5) hazards of
       mh # _ \<Rightarrow> avoid_hazard mh
     | [] \<Rightarrow> continue_mission current_mission))))"

section \<open>Agent actor (cloudflare/src/index.py)\<close>

text \<open>
  JSON values as the actor stores and returns them. \<open>JIso t\<close> is the string that
  \<open>datetime.isoformat()\<close> gives for the instant \<open>t\<close>; \<open>datetime.fromisoformat\<close> reads
  it back and rejects every other string. The clock (\<open>datetime.utcnow()\<close>) is an input
  \<open>now\<close> of each operation.
\<close>

datatype json =
    JNull
  | JBool bool
  | JInt int
  | JFloat real
  | JStr string
  | JIso nat
  | JList "json list"
  | JObj "(string \<times> json) list"

text \<open>Python truthiness, as \<open>if not mission\<close> and \<open>if data\<close> test it.\<close>

fun truthy :: "json \<Rightarrow> bool" where
  "truthy JNull = False"
| "truthy (JBool b) = b"
| "truthy (JInt i) = (i \<noteq> 0)"
| "truthy (JFloat r) = (r \<noteq> 0)"
| "truthy (JStr s) = (s \<noteq> [])"
| "truthy (JIso t) = True"
| "truthy (JList xs) = (xs \<noteq> [])"
| "truthy (JObj kvs) = (kvs \<noteq> [])"

text \<open>\<open>xs[-n:]\<close>: the last \<open>n\<close> elements, the whole list when it is shorter.\<close>

definition last_n :: "nat \<Rightarrow> 'a list \<Rightarrow> 'a list" where
  "last_n n xs = drop (length xs - n) xs"

datatype agent_status = IDLE | PLANNING | EXECUTING | WAITING | COMBAT | ERROR

fun status_value :: "agent_status \<Rightarrow> string" where
  "status_value IDLE = ''idle''"
| "status_value PLANNING = ''planning''"
| "status_value EXECUTING = ''executing''"
| "status_value WAITING = ''waiting''"
| "status_value COMBAT = ''combat''"
| "status_value ERROR = ''error''"

text \<open>\<open>AgentStatus(value)\<close>: the member with that value, or \<open>ValueError\<close>.\<close>

definition AgentStatus :: "string \<Rightarrow> py_error + agent_status" where
  "AgentStatus v =
    (if v = ''idle'' then Inr IDLE
     else if v = ''planning'' then Inr PLANNING
     else if v = ''executing'' then Inr EXECUTING
     else if v = ''waiting'' then Inr WAITING
     else if v = ''combat'' then Inr COMBAT
     else if v = ''error'' then Inr ERROR
     else Inl ValueError)"

text \<open>
  The objects a state's \<open>active_threats\<close> can hold. \<open>index.py\<close> and \<open>tactical.py\<close> each
  declare a dataclass \<open>Threat\<close>; only the one of \<open>index.py\<close> has \<open>to_dict\<close>.
  \<open>IndexThreat\<close> is an instance of \<open>index.Threat\<close> with fields of the annotated
  types, \<open>TacticalThreat\<close> an instance of \<open>tactical.Threat\<close> (what \<open>assess_threats\<close>
  returns), and \<open>KwargsThreat kw\<close> the instance of \<open>index.Threat\<close> that \<open>Threat(**kw)\<close>
  builds from a stored dictionary, holding the dictionary's values as they are (its
  \<open>position\<close> is then a dictionary, not a \<open>Position\<close>). Hazards alike.
\<close>

datatype threat_obj = IndexThreat threat | TacticalThreat threat | KwargsThreat "(string \<times> json) list"

datatype hazard_obj = IndexHazard hazard | TacticalHazard hazard | KwargsHazard "(string \<times> json) list"

record agent_state =
  agent_id :: string
  status :: agent_status
  state_position :: position
  health :: int
  hunger :: int
  current_task :: "string option"
  inventory_slots :: int
  last_active :: nat
  active_threats :: "threat_obj list"
  known_hazards :: "hazard_obj list"
  mission_queue :: "json list"
  telemetry_events :: "json list"

definition position_to_dict :: "position \<Rightarrow> json" where
  "position_to_dict p = JObj [(''x'', JFloat (pos_x p)), (''y'', JFloat (pos_y p)), (''z'', JFloat (pos_z p))]"

text \<open>\<open>Threat.to_dict\<close>; an object without that method (or whose \<open>position\<close> has none)
  raises \<open>AttributeError\<close>.\<close>

fun threat_to_dict :: "threat_obj \<Rightarrow> py_error + json" where
  "threat_to_dict (IndexThreat t) =
    Inr (JObj [(''entityType'', JStr (entity_type t)),
               (''position'', position_to_dict (threat_position t)),
               (''distance'', JFloat (distance t)),
               (''dangerLevel'', JFloat (danger_level t)),
               (''estimatedHealth'', JInt (estimated_health t))])"
| "threat_to_dict (TacticalThreat t) = Inl AttributeError"
| "threat_to_dict (KwargsThreat kw) = Inl AttributeError"

fun hazard_to_dict :: "hazard_obj \<Rightarrow> py_error + json" where
  "hazard_to_dict (IndexHazard h) =
    Inr (JObj [(''hazardType'', JStr (hazard_type h)),
               (''position'', position_to_dict (hazard_position h)),
               (''severity'', JFloat (severity h))])"
| "hazard_to_dict (TacticalHazard h) = Inl AttributeError"
| "hazard_to_dict (KwargsHazard kw) = Inl AttributeError"

text \<open>A list comprehension whose element expression can raise: the first error wins.\<close>

fun map_result :: "('a \<Rightarrow> py_error + 'b) \<Rightarrow> 'a list \<Rightarrow> py_error + 'b list" where
  "map_result f [] = Inr []"
| "map_result f (x # xs) =
    (case f x of
       Inl e \<Rightarrow> Inl e
     | Inr y \<Rightarrow> (case map_result f xs of Inl e \<Rightarrow> Inl e | Inr ys \<Rightarrow> Inr (y # ys)))"

definition json_of_task :: "string option \<Rightarrow> json" where
  "json_of_task t = (case t of None \<Rightarrow> JNull | Some s \<Rightarrow> JStr s)"

definition serialize_state :: "agent_state \<Rightarrow> py_error + json" where
  "serialize_state s =
    (case map_result threat_to_dict (active_threats s) of
       Inl e \<Rightarrow> Inl e
     | Inr ts \<Rightarrow>
    (case map_result hazard_to_dict (known_hazards s) of
       Inl e \<Rightarrow> Inl e
     | Inr hs \<Rightarrow>
       Inr (JObj [(''agentId'', JStr (agent_id s)),
                  (''status'', JStr (status_value (status s))),
                  (''position'', position_to_dict (state_position s)),
                  (''health'', JInt (health s)),
                  (''hunger'', JInt (hunger s)),
                  (''currentTask'', json_of_task (current_task s)),
                  (''inventorySlots'', JInt (inventory_slots s)),
                  (''lastActive'', JIso (last_active s)),
                  (''activeThreats'', JList ts),
                  (''knownHazards'', JList hs),
                  (''missionQueue'', JList (mission_queue s)),
                  (''telemetryEvents'', JList (last_n 100 (telemetry_events s)))])))"

text \<open>
  Reading the stored dictionary. \<open>data[k]\<close> raises \<open>KeyError\<close> on a missing key. The
  state's fields are typed as the dataclass annotates them; a stored value of another type
  is outside this model and reported as \<open>TypeError\<close> (Python would keep the value and fail
  at its first use).
\<close>

definition subscript :: "(string \<times> json) list \<Rightarrow> string \<Rightarrow> py_error + json" where
  "subscript d k = (case map_of d k of None \<Rightarrow> Inl KeyError | Some v \<Rightarrow> Inr v)"

definition as_number :: "json \<Rightarrow> py_error + real" where
  "as_number v = (case v of JFloat r \<Rightarrow> Inr r | JInt i \<Rightarrow> Inr (real_of_int i) | _ \<Rightarrow> Inl TypeError)"

definition as_int :: "json \<Rightarrow> py_error + int" where
  "as_int v = (case v of JInt i \<Rightarrow> Inr i | _ \<Rightarrow> Inl TypeError)"

definition as_str :: "json \<Rightarrow> py_error + string" where
  "as_str v = (case v of JStr s \<Rightarrow> Inr s | _ \<Rightarrow> Inl TypeError)"

definition as_task :: "json \<Rightarrow> py_error + string option" where
  "as_task v = (case v of JNull \<Rightarrow> Inr None | JStr s \<Rightarrow> Inr (Some s) | _ \<Rightarrow> Inl TypeError)"

definition as_list :: "json \<Rightarrow> py_error + json list" where
  "as_list v = (case v of JList xs \<Rightarrow> Inr xs | _ \<Rightarrow> Inl TypeError)"

definition fromisoformat :: "json \<Rightarrow> py_error + nat" where
  "fromisoformat v = (case v of JIso t \<Rightarrow> Inr t | JStr s \<Rightarrow> Inl ValueError | _ \<Rightarrow> Inl TypeError)"

definition then_result :: "py_error + 'a \<Rightarrow> ('a \<Rightarrow> py_error + 'b) \<Rightarrow> py_error + 'b" where
  "then_result r f = (case r of Inl e \<Rightarrow> Inl e | Inr v \<Rightarrow> f v)"

text \<open>\<open>Position.from_dict\<close>: \<open>cls(x=data["x"], y=data["y"], z=data["z"])\<close>.\<close>

definition position_from_dict :: "json \<Rightarrow> py_error + position" where
  "position_from_dict data =
    (case data of
       JObj d \<Rightarrow>
         then_result (then_result (subscript d ''x'') as_number) (\<lambda>vx.
         then_result (then_result (subscript d ''y'') as_number) (\<lambda>vy.
         then_result (then_result (subscript d ''z'') as_number) (\<lambda>vz.
         Inr \<lparr>pos_x = vx, pos_y = vy, pos_z = vz\<rparr>)))
     | _ \<Rightarrow> Inl TypeError)"

text \<open>
  \<open>Threat(**t)\<close> and \<open>Hazard(**h)\<close>: the dataclass constructor takes its fields as keyword
  arguments, all of them required. A key that is no field name (an unexpected keyword
  argument) or a missing field raises \<open>TypeError\<close>.
\<close>

definition Threat_fields :: "string list" where
  "Threat_fields = [''entity_type'', ''position'', ''distance'', ''danger_level'', ''estimated_health'']"

definition Hazard_fields :: "string list" where
  "Hazard_fields = [''hazard_type'', ''position'', ''severity'']"

definition accepts_kwargs :: "string list \<Rightarrow> (string \<times> json) list \<Rightarrow> bool" where
  "accepts_kwargs names kw =
    (list_all (\<lambda>k. k \<in> set names) (map fst kw) \<and> list_all (\<lambda>f. f \<in> set (map fst kw)) names)"

definition Threat_kwargs :: "json \<Rightarrow> py_error + threat_obj" where
  "Threat_kwargs t =
    (case t of
       JObj kw \<Rightarrow> (if accepts_kwargs Threat_fields kw then Inr (KwargsThreat kw) else Inl TypeError)
     | _ \<Rightarrow> Inl TypeError)"

definition Hazard_kwargs :: "json \<Rightarrow> py_error + hazard_obj" where
  "Hazard_kwargs h =
    (case h of
       JObj kw \<Rightarrow> (if accepts_kwargs Hazard_fields kw then Inr (KwargsHazard kw) else Inl TypeError)
     | _ \<Rightarrow> Inl TypeError)"

text \<open>\<open>data.get(k, default)\<close> followed by the typed reading of the value.\<close>

definition get_or :: "(string \<times> json) list \<Rightarrow> string \<Rightarrow> json \<Rightarrow> json" where
  "get_or d k dflt = (case map_of d k of None \<Rightarrow> dflt | Some v \<Rightarrow> v)"

definition deserialize_state :: "json \<Rightarrow> py_error + agent_state" where
  "deserialize_state data =
    (case data of
       JObj d \<Rightarrow>
         then_result (then_result (subscript d ''agentId'') as_str) (\<lambda>v_id.
         then_result (then_result (then_result (subscript d ''status'') as_str) AgentStatus) (\<lambda>v_status.
         then_result (then_result (subscript d ''position'') position_from_dict) (\<lambda>v_pos.
         then_result (then_result (subscript d ''health'') as_int) (\<lambda>v_health.
         then_result (then_result (subscript d ''hunger'') as_int) (\<lambda>v_hunger.
         then_result (as_task (get_or d ''currentTask'' JNull)) (\<lambda>v_task.
         then_result (as_int (get_or d ''inventorySlots'' (JInt 36))) (\<lambda>v_slots.
         then_result (then_result (subscript d ''lastActive'') fromisoformat) (\<lambda>v_active.
         then_result (then_result (as_list (get_or d ''activeThreats'' (JList []))) (map_result Threat_kwargs)) (\<lambda>v_threats.
         then_result (then_result (as_list (get_or d ''knownHazards'' (JList []))) (map_result Hazard_kwargs)) (\<lambda>v_hazards.
         then_result (as_list (get_or d ''missionQueue'' (JList []))) (\<lambda>v_queue.
         then_result (as_list (get_or d ''telemetryEvents'' (JList []))) (\<lambda>v_events.
         Inr \<lparr>agent_id = v_id, status = v_status, state_position = v_pos, health = v_health,
              hunger = v_hunger, current_task = v_task, inventory_slots = v_slots,
              last_active = v_active, active_threats = v_threats, known_hazards = v_hazards,
              mission_queue = v_queue, telemetry_events = v_events\<rparr>))))))))))))
     | _ \<Rightarrow> Inl TypeError)"

text \<open>
  The JSON object of a request body, seen through the keys the handlers read: a missing
  key is \<open>None\<close>, a key that is present holds a value of the type the handler computes
  with. \<open>position\<close> is handed to \<open>Position.from_dict\<close> as it is, \<open>mission\<close> and \<open>data\<close>
  are arbitrary JSON, \<open>currentTask\<close> may be present and \<open>null\<close>.
\<close>

record body =
  b_position :: "json option"
  b_status :: "string option"
  b_health :: "int option"
  b_hunger :: "int option"
  b_currentTask :: "string option option"
  b_mission :: "json option"
  b_nearbyEntities :: "entity list option"
  b_nearbyBlocks :: "block list option"
  b_combatScore :: "real option"
  b_type :: "string option"
  b_data :: "json option"

text \<open>The empty JSON object \<open>{}\<close>.\<close>

definition empty_body :: body where
  "empty_body =
    \<lparr>b_position = None, b_status = None, b_health = None, b_hunger = None, b_currentTask = None,
     b_mission = None, b_nearbyEntities = None, b_nearbyBlocks = None, b_combatScore = None,
     b_type = None, b_data = None\<rparr>"

record request =
  req_method :: string
  req_path :: string
  req_body :: body

record response =
  resp_status :: nat
  resp_body :: json

text \<open>
  The durable object: \<open>object_id\<close> is \<open>self.state.id\<close>, \<open>storage\<close> the value stored under
  the key \<open>"state"\<close>, \<open>self_agent_id\<close> and \<open>state_data\<close> the attributes set in \<open>__init__\<close>.
  A method returns the object as it has left it together with its result; a raised
  exception keeps the mutations made before it.
\<close>

record actor =
  object_id :: string
  storage :: "json option"
  self_agent_id :: "string option"
  state_data :: "agent_state option"

definition new_actor :: "string \<Rightarrow> actor" where
  "new_actor oid = \<lparr>object_id = oid, storage = None, self_agent_id = None, state_data = None\<rparr>"

definition put_state :: "actor \<Rightarrow> agent_state \<Rightarrow> actor" where
  "put_state a s = a\<lparr>state_data := Some s\<rparr>"

definition save_state :: "nat \<Rightarrow> actor \<Rightarrow> actor \<times> (py_error + unit)" where
  "save_state now a =
    (case state_data a of
       None \<Rightarrow> (a, Inr ())
     | Some s \<Rightarrow>
         (case serialize_state s of
            Inl e \<Rightarrow> (a, Inl e)
          | Inr d \<Rightarrow> (a\<lparr>storage := Some d, state_data := Some (s\<lparr>last_active := now\<rparr>)\<rparr>, Inr ())))"

definition initial_state :: "string \<Rightarrow> nat \<Rightarrow> agent_state" where
  "initial_state oid now =
    \<lparr>agent_id = oid, status = IDLE, state_position = \<lparr>pos_x = 0, pos_y = 64, pos_z = 0\<rparr>,
     health = 20, hunger = 20, current_task = None, inventory_slots = 36, last_active = now,
     active_threats = [], known_hazards = [], mission_queue = [], telemetry_events = []\<rparr>"

definition ensure_loaded :: "nat \<Rightarrow> actor \<Rightarrow> actor \<times> (py_error + unit)" where
  "ensure_loaded now a =
    (case state_data a of
       Some s \<Rightarrow> (a, Inr ())
     | None \<Rightarrow>
         (if (case storage a of None \<Rightarrow> False | Some data \<Rightarrow> truthy data)
          then (case deserialize_state (the (storage a)) of
                  Inl e \<Rightarrow> (a, Inl e)
                | Inr s \<Rightarrow> (a\<lparr>state_data := Some s\<rparr>, Inr ()))
          else save_state now
                 (a\<lparr>self_agent_id := Some (object_id a),
                    state_data := Some (initial_state (object_id a) now)\<rparr>)))"

text \<open>\<open>await self._ensure_loaded()\<close> followed by the uses of \<open>self.state_data\<close>.\<close>

definition with_state ::
  "nat \<Rightarrow> actor \<Rightarrow> (actor \<Rightarrow> agent_state \<Rightarrow> actor \<times> (py_error + 'r)) \<Rightarrow> actor \<times> (py_error + 'r)" where
  "with_state now a f =
    (case ensure_loaded now a of
       (a1, Inl e) \<Rightarrow> (a1, Inl e)
     | (a1, Inr u) \<Rightarrow>
         (case state_data a1 of
            None \<Rightarrow> (a1, Inl AttributeError)
          | Some s \<Rightarrow> f a1 s))"

definition log_telemetry :: "nat \<Rightarrow> string \<Rightarrow> json \<Rightarrow> actor \<Rightarrow> actor \<times> (py_error + unit)" where
  "log_telemetry now event_type data a =
    with_state now a (\<lambda>a1 s.
      let event = JObj [(''type'', JStr event_type), (''data'', data), (''timestamp'', JIso now)];
          events = telemetry_events s @ [event];
          events' = (if length events > 100 then last_n 100 events else events)
      in save_state now (put_state a1 (s\<lparr>telemetry_events := events'\<rparr>)))"

definition log_error :: "nat \<Rightarrow> string \<Rightarrow> string \<Rightarrow> actor \<Rightarrow> actor \<times> (py_error + unit)" where
  "log_error now context message a =
    log_telemetry now ''error'' (JObj [(''context'', JStr context), (''message'', JStr message)]) a"

definition json_response :: "nat \<Rightarrow> json \<Rightarrow> response" where
  "json_response code obj = \<lparr>resp_status = code, resp_body = obj\<rparr>"

definition method_not_allowed :: response where
  "method_not_allowed = json_response 405 (JObj [(''error'', JStr ''Method not allowed'')])"

text \<open>\<open>if key in body: target = Position.from_dict(body[key])\<close>\<close>

definition update_position :: "body \<Rightarrow> agent_state \<Rightarrow> py_error + agent_state" where
  "update_position b s =
    (case b_position b of
       None \<Rightarrow> Inr s
     | Some p \<Rightarrow> then_result (position_from_dict p) (\<lambda>pos. Inr (s\<lparr>state_position := pos\<rparr>)))"

definition update_status :: "body \<Rightarrow> agent_state \<Rightarrow> py_error + agent_state" where
  "update_status b s =
    (case b_status b of
       None \<Rightarrow> Inr s
     | Some v \<Rightarrow> then_result (AgentStatus v) (\<lambda>st. Inr (s\<lparr>status := st\<rparr>)))"

definition handle_sync :: "request \<Rightarrow> nat \<Rightarrow> actor \<Rightarrow> actor \<times> (py_error + response)" where
  "handle_sync req now a =
    with_state now a (\<lambda>a1 s.
      if req_method req = ''GET'' then
        (case serialize_state s of
           Inl e \<Rightarrow> (a1, Inl e)
         | Inr d \<Rightarrow> (a1, Inr (json_response 200 d)))
      else if req_method req = ''POST'' then
        (let b = req_body req in
         case update_position b s of
           Inl e \<Rightarrow> (a1, Inl e)
         | Inr s1 \<Rightarrow>
        (case update_status b s1 of
           Inl e \<Rightarrow> (put_state a1 s1, Inl e)
         | Inr s2 \<Rightarrow>
            let s3 = s2\<lparr>health := dict_get (b_health b) (health s2),
                        hunger := dict_get (b_hunger b) (hunger s2),
                        current_task := dict_get (b_currentTask b) (current_task s2),
                        mission_queue := (case b_mission b of
                                            None \<Rightarrow> mission_queue s2
                                          | Some m \<Rightarrow> mission_queue s2 @ [m])\<rparr>
            in (case save_state now (put_state a1 s3) of
                  (a2, Inl e) \<Rightarrow> (a2, Inl e)
                | (a2, Inr u) \<Rightarrow>
                    (a2, Inr (json_response 200
                       (JObj [(''status'', JStr ''synced''),
                              (''agentId'', JStr (agent_id s3)),
                              (''timestamp'', JIso now)]))))))
      else (a1, Inr method_not_allowed))"

definition handle_mission :: "request \<Rightarrow> nat \<Rightarrow> actor \<Rightarrow> actor \<times> (py_error + response)" where
  "handle_mission req now a =
    with_state now a (\<lambda>a1 s.
      if req_method req = ''GET'' then
        (a1, Inr (json_response 200
           (JObj [(''agentId'', JStr (agent_id s)),
                  (''missions'', JList (mission_queue s)),
                  (''current'', json_of_task (current_task s))])))
      else if req_method req = ''POST'' then
        (let mission = dict_get (b_mission (req_body req)) JNull in
         if \<not> truthy mission then
           (a1, Inr (json_response 400 (JObj [(''error'', JStr ''Missing mission'')])))
         else
           (let queue = mission_queue s @ [mission] in
            case save_state now (put_state a1 (s\<lparr>mission_queue := queue\<rparr>)) of
              (a2, Inl e) \<Rightarrow> (a2, Inl e)
            | (a2, Inr u) \<Rightarrow>
                (a2, Inr (json_response 200
                   (JObj [(''status'', JStr ''queued''),
                          (''queueLength'', JInt (int (length queue)))])))))
      else if req_method req = ''DELETE'' then
        (case mission_queue s of
           completed # rest \<Rightarrow>
             (case save_state now (put_state a1 (s\<lparr>mission_queue := rest\<rparr>)) of
                (a2, Inl e) \<Rightarrow> (a2, Inl e)
              | (a2, Inr u) \<Rightarrow> (a2, Inr (json_response 200 (JObj [(''completed'', completed)]))))
         | [] \<Rightarrow> (a1, Inr (json_response 404 (JObj [(''error'', JStr ''No missions to complete'')]))))
      else (a1, Inr method_not_allowed))"

text \<open>
  The calls of the tactical handler into the decision engine, recorded with the arguments
  passed. A call is made through its wrapper, which evaluates the engine function and
  puts the call in front of the calls of the rest of the handler.
\<close>

datatype engine_call =
    Call_assess_threats position "entity list" int real
  | Call_detect_hazards position "block list"
  | Call_get_quick_decision "threat list" "hazard list" real "string option"

definition call_assess_threats ::
  "position \<Rightarrow> entity list \<Rightarrow> int \<Rightarrow> real \<Rightarrow> (threat list \<Rightarrow> engine_call list \<times> 'a)
    \<Rightarrow> engine_call list \<times> 'a" where
  "call_assess_threats p es h c rest =
    (case rest (assess_threats p es h c) of (calls, v) \<Rightarrow> (Call_assess_threats p es h c # calls, v))"

definition call_detect_hazards ::
  "position \<Rightarrow> block list \<Rightarrow> (py_error + hazard list \<Rightarrow> engine_call list \<times> 'a)
    \<Rightarrow> engine_call list \<times> 'a" where
  "call_detect_hazards p bs rest =
    (case rest (detect_hazards p bs) of (calls, v) \<Rightarrow> (Call_detect_hazards p bs # calls, v))"

definition call_get_quick_decision ::
  "threat list \<Rightarrow> hazard list \<Rightarrow> real \<Rightarrow> string option \<Rightarrow> (tactical_decision \<Rightarrow> engine_call list \<times> 'a)
    \<Rightarrow> engine_call list \<times> 'a" where
  "call_get_quick_decision ts hs c m rest =
    (case rest (get_quick_decision ts hs c m) of (calls, v) \<Rightarrow> (Call_get_quick_decision ts hs c m # calls, v))"

text \<open>
  The tactical handler, from the extraction of the context to the decision:
  \<open>assess_threats\<close> is called without \<open>combat_score\<close> (its default is \<open>0.5\<close>),
  \<open>get_quick_decision\<close> with the body's \<open>combatScore\<close> (default \<open>0.0\<close>). The threats and
  hazards stored in the state are the objects the engine returns, instances of the
  classes of \<open>tactical.py\<close>. The result comes with the calls made.
\<close>

definition tactical_analysis ::
  "body \<Rightarrow> agent_state
    \<Rightarrow> engine_call list \<times> (py_error + (threat list \<times> hazard list \<times> tactical_decision \<times> agent_state))" where
  "tactical_analysis b s =
    (let nearby_entities = dict_get (b_nearbyEntities b) [];
         nearby_blocks = dict_get (b_nearbyBlocks b) [];
         current_health = dict_get (b_health b) (health s);
         combat_score = dict_get (b_combatScore b) 0
     in call_assess_threats (state_position s) nearby_entities current_health (1/2) (\<lambda>threats.
        call_detect_hazards (state_position s) nearby_blocks (\<lambda>detected.
          case detected of
            Inl e \<Rightarrow> ([], Inl e)
          | Inr hazards \<Rightarrow>
              let s' = s\<lparr>active_threats := map TacticalThreat threats,
                          known_hazards := map TacticalHazard hazards,
                          health := current_health\<rparr>
              in call_get_quick_decision threats hazards combat_score (current_task s') (\<lambda>decision.
                   ([], Inr (threats, hazards, decision, s'))))))"

text \<open>\<open>decision.to_dict()\<close>: the decision is an instance of \<open>tactical.TacticalDecision\<close>,
  which declares no method \<open>to_dict\<close>.\<close>

definition decision_to_dict :: "tactical_decision \<Rightarrow> py_error + json" where
  "decision_to_dict d = Inl AttributeError"

definition handle_tactical :: "request \<Rightarrow> nat \<Rightarrow> actor \<Rightarrow> actor \<times> (py_error + response)" where
  "handle_tactical req now a =
    with_state now a (\<lambda>a1 s.
      if req_method req \<noteq> ''POST'' then (a1, Inr method_not_allowed)
      else
        (case update_position (req_body req) s of
           Inl e \<Rightarrow> (a1, Inl e)
         | Inr s1 \<Rightarrow>
        (case tactical_analysis (req_body req) s1 of
           (calls, Inl e) \<Rightarrow> (put_state a1 s1, Inl e)
         | (calls, Inr (threats, hazards, decision, s2)) \<Rightarrow>
        (case decision_to_dict decision of
           Inl e \<Rightarrow> (put_state a1 s2, Inl e)
         | Inr dj \<Rightarrow>
        (case log_telemetry now ''tactical''
                (JObj [(''decision'', dj),
                       (''threats'', JInt (int (length threats))),
                       (''hazards'', JInt (int (length hazards)))])
                (put_state a1 s2) of
           (a3, Inl e) \<Rightarrow> (a3, Inl e)
         | (a3, Inr u) \<Rightarrow>
        (case save_state now a3 of
           (a4, Inl e) \<Rightarrow> (a4, Inl e)
         | (a4, Inr u) \<Rightarrow>
        (case map_result threat_to_dict (map TacticalThreat threats) of
           Inl e \<Rightarrow> (a4, Inl e)
         | Inr tj \<Rightarrow>
        (case map_result hazard_to_dict (map TacticalHazard hazards) of
           Inl e \<Rightarrow> (a4, Inl e)
         | Inr hj \<Rightarrow>
            (a4, Inr (json_response 200
               (JObj [(''decision'', dj), (''threats'', JList tj), (''hazards'', JList hj),
                      (''timestamp'', JIso now)])))))))))))"

definition handle_telemetry :: "request \<Rightarrow> nat \<Rightarrow> actor \<Rightarrow> actor \<times> (py_error + response)" where
  "handle_telemetry req now a =
    with_state now a (\<lambda>a1 s.
      if req_method req \<noteq> ''POST'' then (a1, Inr method_not_allowed)
      else
        (let event_type = dict_get (b_type (req_body req)) ''unknown'';
             event_data = dict_get (b_data (req_body req)) (JObj [])
         in case log_telemetry now event_type event_data a1 of
              (a2, Inl e) \<Rightarrow> (a2, Inl e)
            | (a2, Inr u) \<Rightarrow> (a2, Inr (json_response 200 (JObj [(''status'', JStr ''logged'')])))))"

definition handle_health :: "nat \<Rightarrow> actor \<Rightarrow> actor \<times> (py_error + response)" where
  "handle_health now a =
    (a, Inr (json_response 200
       (JObj [(''status'', JStr ''healthy''),
              (''agentId'', JStr (case state_data a of None \<Rightarrow> ''uninitialized'' | Some s \<Rightarrow> agent_id s)),
              (''timestamp'', JIso now)])))"

text \<open>\<open>path.endswith(suffix)\<close>\<close>

definition endswith :: "string \<Rightarrow> string \<Rightarrow> bool" where
  "endswith path suf = (length suf \<le> length path \<and> drop (length path - length suf) path = suf)"

text \<open>\<open>str(e)\<close>: the model keeps the class of the exception, not its message.\<close>

fun str_error :: "py_error \<Rightarrow> string" where
  "str_error ZeroDivisionError = ''ZeroDivisionError''"
| "str_error TypeError = ''TypeError''"
| "str_error AttributeError = ''AttributeError''"
| "str_error KeyError = ''KeyError''"
| "str_error ValueError = ''ValueError''"

definition route :: "request \<Rightarrow> nat \<Rightarrow> actor \<Rightarrow> actor \<times> (py_error + response)" where
  "route req now a =
    (if endswith (req_path req) ''/sync'' then handle_sync req now a
     else if endswith (req_path req) ''/mission'' then handle_mission req now a
     else if endswith (req_path req) ''/tactical'' then handle_tactical req now a
     else if endswith (req_path req) ''/telemetry'' then handle_telemetry req now a
     else if endswith (req_path req) ''/health'' then handle_health now a
     else (a, Inr (json_response 404
                     (JObj [(''error'', JStr ''Not found''), (''path'', JStr (req_path req))]))))"

text \<open>\<open>AgentStateDO.fetch\<close>: an exception of a handler is logged and answered with 500;
  an exception raised while logging leaves \<open>fetch\<close>.\<close>

definition fetch :: "request \<Rightarrow> nat \<Rightarrow> actor \<Rightarrow> actor \<times> (py_error + response)" where
  "fetch req now a =
    (case route req now a of
       (a1, Inr r) \<Rightarrow> (a1, Inr r)
     | (a1, Inl e) \<Rightarrow>
         (case log_error now ''fetch'' (str_error e) a1 of
            (a2, Inl e2) \<Rightarrow> (a2, Inl e2)
          | (a2, Inr u) \<Rightarrow>
              (a2, Inr (json_response 500
                 (JObj [(''error'', JStr ''Internal server error''),
                        (''message'', JStr (str_error e))])))))"

text \<open>
  A life of the actor: requests, each at its instant, and restarts, at which the runtime
  drops the object from memory and constructs it anew over the same storage.
\<close>

datatype operation = Fetch request nat | Restart

definition restart :: "actor \<Rightarrow> actor" where
  "restart a = a\<lparr>self_agent_id := None, state_data := None\<rparr>"

fun run :: "operation list \<Rightarrow> actor \<Rightarrow> actor" where
  "run [] a = a"
| "run (Fetch req now # ops) a = run ops (fst (fetch req now a))"
| "run (Restart # ops) a = run ops (restart a)"

text \<open>
  The telemetry cap as a predicate on the actor: the events of the state in memory, and
  the events of the stored dictionary (\<open>data.get("telemetryEvents", [])\<close>), are at most 100.
\<close>

definition stored_events :: "json \<Rightarrow> json list" where
  "stored_events data =
    (case data of
       JObj d \<Rightarrow> (case get_or d ''telemetryEvents'' (JList []) of JList evs \<Rightarrow> evs | _ \<Rightarrow> [])
     | _ \<Rightarrow> [])"

definition telemetry_capped :: "actor \<Rightarrow> bool" where
  "telemetry_capped a =
    ((case state_data a of None \<Rightarrow> True | Some s \<Rightarrow> length (telemetry_events s) \<le> 100)
     \<and> (case storage a of None \<Rightarrow> True | Some d \<Rightarrow> length (stored_events d) \<le> 100))"

section \<open>Synchronisation with the coordinator (cloudflare/src/sync.py)\<close>

record ForemanConfig =
  base_url :: string
  api_key :: string
  config_agent_id :: string
  sync_interval_seconds :: int

record SyncState =
  last_sync :: "nat option"
  last_sync_success :: bool
  sync_failures :: int
  last_error :: "string option"
  pending_updates :: "json list"

text \<open>\<open>SyncState()\<close>, with \<open>__post_init__\<close> replacing the \<open>None\<close> of \<open>pending_updates\<close>.\<close>

definition new_SyncState :: SyncState where
  "new_SyncState =
    \<lparr>last_sync = None, last_sync_success = True, sync_failures = 0, last_error = None,
     pending_updates = []\<rparr>"

text \<open>The instance attributes of a \<open>SyncManager\<close>, as \<open>__init__\<close> sets them:
  \<open>self.config\<close> and \<open>self.sync_state\<close>.\<close>

record SyncManager =
  config :: ForemanConfig
  sync_state :: SyncState

definition SyncManager_init :: "ForemanConfig \<Rightarrow> SyncManager" where
  "SyncManager_init cfg = \<lparr>config = cfg, sync_state = new_SyncState\<rparr>"

text \<open>
  The body of the method \<open>sync_state\<close> declared in the class. The request to the
  coordinator is commented out in the source and a successful response is put in its
  place (\<open>simulated_send\<close>); the body is written over the transport \<open>send\<close> so that its
  \<open>except\<close> branch is part of the model.
\<close>

definition simulated_send :: "json \<Rightarrow> py_error + json" where
  "simulated_send payload =
    Inr (JObj [(''status'', JStr ''synced''), (''missions'', JList []), (''configUpdates'', JObj [])])"

definition sync_state_body ::
  "(json \<Rightarrow> py_error + json) \<Rightarrow> nat \<Rightarrow> json \<Rightarrow> SyncManager \<Rightarrow> SyncManager \<times> (py_error + json)" where
  "sync_state_body send now agent_state m =
    (let ss = (sync_state m)\<lparr>last_sync := Some now\<rparr>;
         payload = JObj [(''agentId'', JStr (config_agent_id (config m))),
                         (''timestamp'', JIso now),
                         (''state'', agent_state),
                         (''pendingUpdates'', JList (pending_updates ss))]
     in case send payload of
          Inr response \<Rightarrow>
            (m\<lparr>sync_state := ss\<lparr>pending_updates := [], last_sync_success := True,
                                  sync_failures := 0, last_error := None\<rparr>\<rparr>,
             Inr response)
        | Inl e \<Rightarrow>
            (let pending = pending_updates ss @ [JObj [(''timestamp'', JIso now), (''state'', agent_state)]]
             in (m\<lparr>sync_state := ss\<lparr>last_sync_success := False,
                                     sync_failures := sync_failures ss + 1,
                                     last_error := Some (str_error e),
                                     pending_updates :=
                                       (if length pending > 10 then last_n 10 pending else pending)\<rparr>\<rparr>,
                 Inl e)))"

definition SyncManager_sync_state :: "nat \<Rightarrow> json \<Rightarrow> SyncManager \<Rightarrow> SyncManager \<times> (py_error + json)" where
  "SyncManager_sync_state now agent_state m = sync_state_body simulated_send now agent_state m"

text \<open>
  Attribute lookup on an instance. The class declares the methods; \<open>__init__\<close> stores the
  attributes \<open>config\<close> and \<open>sync_state\<close> in the instance dictionary. A function of the
  class is a non-data descriptor, so a name found in the instance dictionary wins over
  the method of the same name.
\<close>

datatype attribute = ConfigValue ForemanConfig | SyncStateValue SyncState | Method string

definition instance_dict :: "SyncManager \<Rightarrow> (string \<times> attribute) list" where
  "instance_dict m = [(''config'', ConfigValue (config m)), (''sync_state'', SyncStateValue (sync_state m))]"

definition class_dict :: "(string \<times> attribute) list" where
  "class_dict =
    map (\<lambda>n. (n, Method n))
      [''should_sync'', ''sync_state'', ''get_missions'', ''send_telemetry'', ''send_heartbeat'',
       ''report_mission_complete'', ''report_mission_failed'', ''get_sync_status'']"

definition getattr :: "SyncManager \<Rightarrow> string \<Rightarrow> py_error + attribute" where
  "getattr m n =
    (case map_of (instance_dict m) n of
       Some v \<Rightarrow> Inr v
     | None \<Rightarrow> (case map_of class_dict n of Some v \<Rightarrow> Inr v | None \<Rightarrow> Inl AttributeError))"

text \<open>
  \<open>sync_manager.sync_state(agent_state)\<close>, the call \<open>perform_periodic_sync\<close> makes: the
  attribute is looked up and the value found is called. A \<open>SyncState\<close> or a
  \<open>ForemanConfig\<close> is not callable.
\<close>

definition call_sync_state :: "nat \<Rightarrow> json \<Rightarrow> SyncManager \<Rightarrow> SyncManager \<times> (py_error + json)" where
  "call_sync_state now agent_state m =
    (case getattr m ''sync_state'' of
       Inl e \<Rightarrow> (m, Inl e)
     | Inr (Method n) \<Rightarrow> SyncManager_sync_state now agent_state m
     | Inr (ConfigValue c) \<Rightarrow> (m, Inl TypeError)
     | Inr (SyncStateValue s) \<Rightarrow> (m, Inl TypeError))"

section \<open>Properties of the tactical decision engine\<close>

subsection \<open>Sorting and filtering\<close>

lemma collect_threats_filter:
  "collect_threats p h c es = filter (\<lambda>t. \<not> danger_level t < 3/10) (map (entity_threat p h c) es)"
  by (induction es) (simp_all add: Let_def)

lemma sort_reverse_set: "set (sort_reverse k xs) = set xs"
  by (simp add: sort_reverse_def)

lemma sort_reverse_length: "length (sort_reverse k xs) = length xs"
  by (simp add: sort_reverse_def)

lemma sort_reverse_sorted: "sorted_wrt (\<lambda>a b. k a \<ge> k b) (sort_reverse k xs)"
proof -
  have "sorted (map (\<lambda>v. - k v) (sort_reverse k xs))"
    by (simp add: sort_reverse_def)
  then show ?thesis
    by (simp add: sorted_map) 
qed

lemma sort_reverse_stable:
  "filter (\<lambda>v. k v = d) (sort_reverse k xs) = filter (\<lambda>v. k v = d) xs"
proof -
  have "filter (\<lambda>v. - k v = - d) (sort_key (\<lambda>v. - k v) xs) = filter (\<lambda>v. - k v = - d) xs"
    by (rule sort_key_stable)
  then show ?thesis by (simp add: sort_reverse_def)
qed

lemma filter_take_prefix: "prefix (filter P (take n xs)) (filter P xs)"
proof -
  have "filter P xs = filter P (take n xs) @ filter P (drop n xs)"
    by (metis append_take_drop_id filter_append)
  then show ?thesis by (metis prefixI)
qed

lemma sorted_wrt_take_ge: "sorted_wrt R xs \<Longrightarrow> sorted_wrt R (take n xs)"
  by (metis append_take_drop_id sorted_wrt_append)

lemma sorted_desc_first_max:
  assumes "sorted_wrt (\<lambda>a b. k a \<ge> k b) xs" "filter P xs = f # rest" "y \<in> set xs"
    and up: "\<And>a b. P b \<Longrightarrow> k a \<ge> k b \<Longrightarrow> P a"
  shows "k y \<le> (k f :: real)"
  using assms(1-3)
proof (induction xs)
  case Nil then show ?case by simp
next
  case (Cons a xs)
  show ?case
  proof (cases "P a")
    case True
    with Cons.prems have "f = a" by simp
    with Cons.prems show ?thesis by auto
  next
    case False
    have "f \<in> set (filter P (a # xs))" using Cons.prems(2) by simp
    then have fin: "f \<in> set xs" and "P f" using False by auto
    note \<open>P f\<close>
    moreover have "k a \<ge> k f" using Cons.prems(1) fin by auto
    ultimately have "P a" using up by blast
    with False show ?thesis by simp
  qed
qed

lemma rating_warden: "rating_of ''warden'' = 10"
  by (simp add: rating_of_def ENTITY_DANGER_RATINGS_def dict_get_def)

subsection \<open>Threat assessment\<close>

text \<open>
  Claim C4: \<open>assess_threats\<close> returns at most 5 threats, sorted by non-increasing
  danger level, each with danger level at least 0.3, and threats of equal danger level
  keep the relative order of their entities in the input (for every danger level, the
  returned threats of that level are an initial part of the input's threats of that level).
\<close>

theorem assess_threats_top5_sorted_stable:
  "length (assess_threats p es h c) \<le> 5
   \<and> sorted_wrt (\<lambda>a b. danger_level a \<ge> danger_level b) (assess_threats p es h c)
   \<and> (\<forall>t \<in> set (assess_threats p es h c). danger_level t \<ge> 3/10)
   \<and> (\<forall>d. prefix (filter (\<lambda>t. danger_level t = d) (assess_threats p es h c))
                   (filter (\<lambda>t. danger_level t = d) (map (entity_threat p h c) es)))"
proof (intro conjI allI ballI)
  show "length (assess_threats p es h c) \<le> 5" by (simp add: assess_threats_def)
  show "sorted_wrt (\<lambda>a b. danger_level a \<ge> danger_level b) (assess_threats p es h c)"
    unfolding assess_threats_def by (rule sorted_wrt_take_ge) (rule sort_reverse_sorted)
next
  fix t assume "t \<in> set (assess_threats p es h c)"
  then have "t \<in> set (collect_threats p h c es)"
    unfolding assess_threats_def using sort_reverse_set in_set_takeD by fastforce
  then show "danger_level t \<ge> 3/10" by (auto simp: collect_threats_filter)
next
  fix d
  let ?P = "\<lambda>t. danger_level t = d"
  have "prefix (filter ?P (assess_threats p es h c)) (filter ?P (collect_threats p h c es))"
    unfolding assess_threats_def
    using filter_take_prefix[of ?P 5 "sort_reverse danger_level (collect_threats p h c es)"]
    by (simp add: sort_reverse_stable)
  moreover have "prefix (filter ?P (collect_threats p h c es)) (filter ?P (map (entity_threat p h c) es))"
  proof (cases "d < 3/10")
    case True
    then have "filter ?P (collect_threats p h c es) = []"
      by (auto simp: collect_threats_filter filter_empty_conv)
    then show ?thesis by simp
  next
    case False
    then have "filter ?P (collect_threats p h c es) = filter ?P (map (entity_threat p h c) es)"
      unfolding collect_threats_filter filter_filter
      by (intro filter_cong) auto
    then show ?thesis by simp
  qed
  ultimately show "prefix (filter ?P (assess_threats p es h c)) (filter ?P (map (entity_threat p h c) es))"
    by (rule prefix_order.trans)
qed

theorem assess_threats_top5_sorted_stable_witness:
  "assess_threats \<lparr>pos_x = 0, pos_y = 64, pos_z = 0\<rparr>
      [\<lparr>ent_type = Some ''warden'', ent_x = Some 0, ent_y = Some 64, ent_z = Some 0, ent_health = None\<rparr>]
      3 (1/2)
    = [\<lparr>entity_type = ''warden'', threat_position = \<lparr>pos_x = 0, pos_y = 64, pos_z = 0\<rparr>,
        distance = 0, danger_level = 1, estimated_health = 20\<rparr>]
   \<and> length (assess_threats \<lparr>pos_x = 0, pos_y = 64, pos_z = 0\<rparr>
      [\<lparr>ent_type = Some ''warden'', ent_x = Some 0, ent_y = Some 64, ent_z = Some 0, ent_health = None\<rparr>]
      3 (1/2)) \<le> 5
   \<and> sorted_wrt (\<lambda>a b. danger_level a \<ge> danger_level b)
      (assess_threats \<lparr>pos_x = 0, pos_y = 64, pos_z = 0\<rparr>
      [\<lparr>ent_type = Some ''warden'', ent_x = Some 0, ent_y = Some 64, ent_z = Some 0, ent_health = None\<rparr>]
      3 (1/2))"
proof -
  have "assess_threats \<lparr>pos_x = 0, pos_y = 64, pos_z = 0\<rparr>
      [\<lparr>ent_type = Some ''warden'', ent_x = Some 0, ent_y = Some 64, ent_z = Some 0, ent_health = None\<rparr>]
      3 (1/2)
    = [\<lparr>entity_type = ''warden'', threat_position = \<lparr>pos_x = 0, pos_y = 64, pos_z = 0\<rparr>,
        distance = 0, danger_level = 1, estimated_health = 20\<rparr>]"
    by (simp add: assess_threats_def sort_reverse_def entity_threat_def entity_pos_def
        euclid_def calculate_danger_level_def rating_warden dict_get_def Let_def)
  then show ?thesis
    using assess_threats_top5_sorted_stable[of "\<lparr>pos_x = 0, pos_y = 64, pos_z = 0\<rparr>"
      "[\<lparr>ent_type = Some ''warden'', ent_x = Some 0, ent_y = Some 64, ent_z = Some 0, ent_health = None\<rparr>]"
      3 "1/2"] by blast
qed

subsection \<open>Decision cascade\<close>

text \<open>
  Claim C1, as the code has it: when some hazard has severity above 0.8,
  \<open>get_quick_decision\<close> flees from the first such hazard in list order, whatever the
  threats, combat score and mission are; the action is "flee", priority and confidence
  are 1.0, and the target is that hazard's position moved by 5 on the x and z axes, against
  the sign of the hazard's coordinate (not moved where the coordinate is 0). That
  hazard is a most severe one whenever the list is sorted by non-increasing severity, as
  \<open>detect_hazards\<close> returns it.
\<close>

theorem get_quick_decision_fatal_hazard:
  assumes "\<exists>h \<in> set hazards. severity h > 4/5"
  shows "\<exists>fh rest. filter (\<lambda>h. severity h > 4/5) hazards = fh # rest
     \<and> get_quick_decision threats hazards combat_score current_mission = flee_from_hazard fh
     \<and> action (get_quick_decision threats hazards combat_score current_mission) = ''flee''
     \<and> priority (get_quick_decision threats hazards combat_score current_mission) = 1
     \<and> confidence (get_quick_decision threats hazards combat_score current_mission) = 1
     \<and> target_position (get_quick_decision threats hazards combat_score current_mission) =
         Some \<lparr>pos_x = pos_x (hazard_position fh)
                        + (if pos_x (hazard_position fh) = 0 then 0
                           else if pos_x (hazard_position fh) > 0 then - 5 else 5),
               pos_y = pos_y (hazard_position fh),
               pos_z = pos_z (hazard_position fh)
                        + (if pos_z (hazard_position fh) = 0 then 0
                           else if pos_z (hazard_position fh) > 0 then - 5 else 5)\<rparr>
     \<and> (sorted_wrt (\<lambda>a b. severity a \<ge> severity b) hazards
          \<longrightarrow> (\<forall>h \<in> set hazards. severity h \<le> severity fh))"
proof -
  from assms have "filter (\<lambda>h. severity h > 4/5) hazards \<noteq> []"
    by (simp add: filter_empty_conv)
  then obtain fh rest where f: "filter (\<lambda>h. severity h > 4/5) hazards = fh # rest"
    by (cases "filter (\<lambda>h. severity h > 4/5) hazards") auto
  have g: "get_quick_decision threats hazards combat_score current_mission = flee_from_hazard fh"
    unfolding get_quick_decision_def f by (simp only: list.case)
  have m: "sorted_wrt (\<lambda>a b. severity a \<ge> severity b) hazards
          \<longrightarrow> (\<forall>h \<in> set hazards. severity h \<le> severity fh)"
    using sorted_desc_first_max[of severity hazards "\<lambda>h. severity h > 4/5" fh rest] f
    by auto
  show ?thesis
    apply (rule exI[of _ fh], rule exI[of _ rest])
    using f m by (simp add: g flee_from_hazard_def away_def)
qed

theorem get_quick_decision_fatal_hazard_witness:
  "(\<exists>h \<in> set [\<lparr>hazard_type = ''lava'', hazard_position = \<lparr>pos_x = 5, pos_y = 64, pos_z = 0\<rparr>, severity = 1\<rparr>].
      severity h > 4/5)
   \<and> action (get_quick_decision [] [\<lparr>hazard_type = ''lava'',
        hazard_position = \<lparr>pos_x = 5, pos_y = 64, pos_z = 0\<rparr>, severity = 1\<rparr>] (1/2) None) = ''flee''
   \<and> target_position (get_quick_decision [] [\<lparr>hazard_type = ''lava'',
        hazard_position = \<lparr>pos_x = 5, pos_y = 64, pos_z = 0\<rparr>, severity = 1\<rparr>] (1/2) None)
      = Some \<lparr>pos_x = 0, pos_y = 64, pos_z = 0\<rparr>"
proof -
  let ?H = "\<lparr>hazard_type = ''lava'', hazard_position = \<lparr>pos_x = 5, pos_y = 64, pos_z = 0\<rparr>, severity = 1\<rparr>"
  have h: "\<exists>h \<in> set [?H]. severity h > 4/5" by simp
  from get_quick_decision_fatal_hazard[OF h, of "[]" "1/2" None] obtain fh rest where
    f: "filter (\<lambda>h. severity h > 4/5) [?H] = fh # rest"
    and a: "action (get_quick_decision [] [?H] (1/2) None) = ''flee''"
    and t: "target_position (get_quick_decision [] [?H] (1/2) None) =
         Some \<lparr>pos_x = pos_x (hazard_position fh)
                        + (if pos_x (hazard_position fh) = 0 then 0
                           else if pos_x (hazard_position fh) > 0 then - 5 else 5),
               pos_y = pos_y (hazard_position fh),
               pos_z = pos_z (hazard_position fh)
                        + (if pos_z (hazard_position fh) = 0 then 0
                           else if pos_z (hazard_position fh) > 0 then - 5 else 5)\<rparr>"
    by blast
  from f have "fh = ?H" by simp
  with h a t show ?thesis by simp
qed

text \<open>
  Claim C1 says the flight is from the single most severe fatal hazard. On a list that is
  not sorted the code flees from the first fatal hazard (severity 0.9, target x = -4)
  although a more severe one (severity 1.0, whose target would be x = 5) follows.
\<close>

theorem get_quick_decision_not_most_severe:
  "get_quick_decision []
     [\<lparr>hazard_type = ''fire'', hazard_position = \<lparr>pos_x = 1, pos_y = 0, pos_z = 0\<rparr>, severity = 9/10\<rparr>,
      \<lparr>hazard_type = ''lava'', hazard_position = \<lparr>pos_x = 10, pos_y = 0, pos_z = 0\<rparr>, severity = 1\<rparr>]
     (1/2) None
   = flee_from_hazard
      \<lparr>hazard_type = ''fire'', hazard_position = \<lparr>pos_x = 1, pos_y = 0, pos_z = 0\<rparr>, severity = 9/10\<rparr>
   \<and> target_position (get_quick_decision []
     [\<lparr>hazard_type = ''fire'', hazard_position = \<lparr>pos_x = 1, pos_y = 0, pos_z = 0\<rparr>, severity = 9/10\<rparr>,
      \<lparr>hazard_type = ''lava'', hazard_position = \<lparr>pos_x = 10, pos_y = 0, pos_z = 0\<rparr>, severity = 1\<rparr>]
     (1/2) None) = Some \<lparr>pos_x = - 4, pos_y = 0, pos_z = 0\<rparr>
   \<and> target_position (flee_from_hazard
      \<lparr>hazard_type = ''lava'', hazard_position = \<lparr>pos_x = 10, pos_y = 0, pos_z = 0\<rparr>, severity = 1\<rparr>)
      = Some \<lparr>pos_x = 5, pos_y = 0, pos_z = 0\<rparr>"
  by (simp add: get_quick_decision_def flee_from_hazard_def away_def)

subsection \<open>Danger level and agent health\<close>

lemma rating_of_nonneg: "0 \<le> rating_of s"
proof (cases "map_of ENTITY_DANGER_RATINGS s")
  case None
  then show ?thesis by (simp add: rating_of_def dict_get_def)
next
  case (Some v)
  then have "(s, v) \<in> set ENTITY_DANGER_RATINGS" by (rule map_of_SomeD)
  then have "0 \<le> v" unfolding ENTITY_DANGER_RATINGS_def by auto
  with Some show ?thesis by (simp add: rating_of_def dict_get_def)
qed

lemma danger_health_20: 
  "calculate_danger_level b d 20 c = min 1 (max 0 (b * max 0 (1 - d / 20) * max (1/2) (1 - c * (1/2)) * (4/5) / 10))"
  by (simp add: calculate_danger_level_def Let_def mult.commute mult.left_commute)

lemma danger_health_3: 
  "calculate_danger_level b d 3 c = min 1 (max 0 (b * max 0 (1 - d / 20) * max (1/2) (1 - c * (1/2)) * 2 / 10))"
  by (simp add: calculate_danger_level_def Let_def mult.commute mult.left_commute)

lemma danger_lower_health:
  assumes "0 \<le> b"
  shows "calculate_danger_level b d 20 c \<le> calculate_danger_level b d 3 c"
    and "0 < calculate_danger_level b d 20 c \<Longrightarrow> calculate_danger_level b d 20 c < 1
         \<Longrightarrow> calculate_danger_level b d 20 c < calculate_danger_level b d 3 c"
proof -
  define r where "r = b * max 0 (1 - d / 20) * max (1/2) (1 - c * (1/2))"
  have r: "0 \<le> r" unfolding r_def using assms by (intro mult_nonneg_nonneg) auto
  have e20: "calculate_danger_level b d 20 c = min 1 (max 0 (r * (4/5) / 10))"
    unfolding danger_health_20 r_def ..
  have e3: "calculate_danger_level b d 3 c = min 1 (max 0 (r * 2 / 10))"
    unfolding danger_health_3 r_def ..
  show "calculate_danger_level b d 20 c \<le> calculate_danger_level b d 3 c"
    unfolding e20 e3 using r by (auto simp: min_def max_def)
  show "0 < calculate_danger_level b d 20 c \<Longrightarrow> calculate_danger_level b d 20 c < 1
         \<Longrightarrow> calculate_danger_level b d 20 c < calculate_danger_level b d 3 c"
    unfolding e20 e3 using r by (auto simp: min_def max_def split: if_splits)
qed

lemma rating_zombie: "rating_of ''zombie'' = 3/2"
  by (simp add: rating_of_def ENTITY_DANGER_RATINGS_def dict_get_def)

lemma rating_villager: "rating_of ''villager'' = 0"
  by (simp add: rating_of_def ENTITY_DANGER_RATINGS_def dict_get_def)

lemma sqrt_25: "sqrt 25 = 5"
  using real_sqrt_abs[of 5] by simp

text \<open>
  Claim C8, as the code has it: with the agent position, combat score and entity fixed,
  lowering the agent's health from 20 to 3 never lowers the entity's danger level, and
  it strictly raises it whenever the danger level at health 20 lies strictly between 0
  and 1 (outside the two clamps of \<open>calculate_danger_level\<close>).
\<close>

theorem danger_level_lower_health:
  "danger_level (entity_threat p 20 c e) \<le> danger_level (entity_threat p 3 c e)
   \<and> (0 < danger_level (entity_threat p 20 c e) \<and> danger_level (entity_threat p 20 c e) < 1
        \<longrightarrow> danger_level (entity_threat p 20 c e) < danger_level (entity_threat p 3 c e))"
  using danger_lower_health[OF rating_of_nonneg]
  by (simp add: entity_threat_def Let_def)

theorem danger_level_lower_health_witness:
  "danger_level (entity_threat \<lparr>pos_x = 0, pos_y = 64, pos_z = 0\<rparr> 20 (1/2)
      \<lparr>ent_type = Some ''zombie'', ent_x = Some 5, ent_y = Some 64, ent_z = Some 0, ent_health = Some 20\<rparr>)
     = 27/400
   \<and> danger_level (entity_threat \<lparr>pos_x = 0, pos_y = 64, pos_z = 0\<rparr> 3 (1/2)
      \<lparr>ent_type = Some ''zombie'', ent_x = Some 5, ent_y = Some 64, ent_z = Some 0, ent_health = Some 20\<rparr>)
     = 27/160
   \<and> danger_level (entity_threat \<lparr>pos_x = 0, pos_y = 64, pos_z = 0\<rparr> 20 (1/2)
      \<lparr>ent_type = Some ''zombie'', ent_x = Some 5, ent_y = Some 64, ent_z = Some 0, ent_health = Some 20\<rparr>)
     < danger_level (entity_threat \<lparr>pos_x = 0, pos_y = 64, pos_z = 0\<rparr> 3 (1/2)
      \<lparr>ent_type = Some ''zombie'', ent_x = Some 5, ent_y = Some 64, ent_z = Some 0, ent_health = Some 20\<rparr>)"
proof -
  let ?p = "\<lparr>pos_x = 0, pos_y = 64, pos_z = 0\<rparr>"
  let ?e = "\<lparr>ent_type = Some ''zombie'', ent_x = Some 5, ent_y = Some 64, ent_z = Some 0, ent_health = Some 20\<rparr>"
  have a: "danger_level (entity_threat ?p 20 (1/2) ?e) = 27/400"
    by (simp add: entity_threat_def entity_pos_def euclid_def calculate_danger_level_def
        rating_zombie dict_get_def Let_def sqrt_25)
  have b: "danger_level (entity_threat ?p 3 (1/2) ?e) = 27/160"
    by (simp add: entity_threat_def entity_pos_def euclid_def calculate_danger_level_def
        rating_zombie dict_get_def Let_def sqrt_25)
  have "0 < danger_level (entity_threat ?p 20 (1/2) ?e) \<and> danger_level (entity_threat ?p 20 (1/2) ?e) < 1"
    unfolding a by simp
  with danger_level_lower_health[of ?p "1/2" ?e] have "danger_level (entity_threat ?p 20 (1/2) ?e) < danger_level (entity_threat ?p 3 (1/2) ?e)"
    by blast
  with a b show ?thesis by blast
qed

text \<open>
  Claim C8 says the increase is strict for every entity. A villager has base danger 0,
  so its danger level is 0 at health 20 and at health 3 alike.
\<close>

theorem danger_level_villager_not_strict:
  "danger_level (entity_threat \<lparr>pos_x = 0, pos_y = 64, pos_z = 0\<rparr> 20 (1/2)
      \<lparr>ent_type = Some ''villager'', ent_x = Some 0, ent_y = Some 64, ent_z = Some 0, ent_health = Some 20\<rparr>)
     = 0
   \<and> danger_level (entity_threat \<lparr>pos_x = 0, pos_y = 64, pos_z = 0\<rparr> 3 (1/2)
      \<lparr>ent_type = Some ''villager'', ent_x = Some 0, ent_y = Some 64, ent_z = Some 0, ent_health = Some 20\<rparr>)
     = 0"
  by (simp add: entity_threat_def entity_pos_def euclid_def calculate_danger_level_def
        rating_villager dict_get_def Let_def)

subsection \<open>Hazard detection\<close>

lemma block_hazards_mem:
  "block_hazards p bs = Inr hs \<Longrightarrow> b \<in> set bs \<Longrightarrow> block_hazard p b = Inr (Some h) \<Longrightarrow> h \<in> set hs"
proof (induction bs arbitrary: hs)
  case Nil
  then show ?case by simp
next
  case (Cons a bs)
  then show ?case
    by (auto split: sum.splits option.splits)
qed

lemma block_hazards_origin:
  "block_hazards p bs = Inr hs \<Longrightarrow> h \<in> set hs \<Longrightarrow> \<exists>b \<in> set bs. block_hazard p b = Inr (Some h)"
proof (induction bs arbitrary: hs)
  case Nil
  then show ?case by simp
next
  case (Cons a bs)
  then show ?case
    by (fastforce split: sum.splits option.splits)
qed

lemma take_sort_reverse_mem:
  assumes "h \<in> set xs"
  shows "h \<in> set (take n (sort_reverse k xs))
     \<or> (length (take n (sort_reverse k xs)) = n \<and> (\<forall>y \<in> set (take n (sort_reverse k xs)). k h \<le> k y))"
proof -
  let ?s = "sort_reverse k xs"
  from assms have "h \<in> set ?s" by (simp add: sort_reverse_set)
  then obtain i where i: "i < length ?s" "?s ! i = h" by (auto simp: in_set_conv_nth)
  show ?thesis
  proof (cases "i < n")
    case True
    with i have "h \<in> set (take n ?s)" by (auto simp: in_set_conv_nth intro!: exI[of _ i])
    then show ?thesis by simp
  next
    case False
    then have len: "length (take n ?s) = n" using i by simp
    have "k h \<le> k y" if "y \<in> set (take n ?s)" for y
    proof -
      from that obtain j where j: "j < n" "j < length ?s" "?s ! j = y"
        by (auto simp: in_set_conv_nth)
      with False have "j < i" by simp
      with sort_reverse_sorted[of k xs] i j show ?thesis
        by (auto simp: sorted_wrt_iff_nth_less)
    qed
    with len show ?thesis by blast
  qed
qed

lemma lava_block_hazard:
  assumes "blk_type b = Some ''lava''"
  shows "block_hazard p b =
    (if euclid p (block_pos b) \<le> 3
     then Inr (Some \<lparr>hazard_type = ''lava'', hazard_position = block_pos b,
                      severity = 1 - euclid p (block_pos b) / 3\<rparr>)
     else Inr None)"
  using assms by (simp add: block_hazard_def dangerous_blocks_def dict_get_def Let_def)

lemma lava_hazard_origin:
  assumes "block_hazard p b = Inr (Some h)" "hazard_type h = ''lava''"
  shows "euclid p (hazard_position h) \<le> 3"
proof -
  from assms(1) obtain ty sev radius where
    m: "map_of dangerous_blocks (dict_get (blk_type b) '''') = Some (ty, sev, radius)"
    by (auto simp: block_hazard_def split: option.splits)
  with assms(1) have h: "hazard_type h = ty" "hazard_position h = block_pos b"
      "euclid p (block_pos b) \<le> real_of_int radius"
    by (auto simp: block_hazard_def Let_def split: if_splits)
  from m have "(dict_get (blk_type b) '''', (ty, sev, radius)) \<in> set dangerous_blocks"
    by (rule map_of_SomeD)
  with h(1) assms(2) have "radius = 3" by (auto simp: dangerous_blocks_def)
  with h show ?thesis by simp
qed

lemma sqrt_9: "sqrt 9 = 3"
  using real_sqrt_abs[of 3] by simp

text \<open>
  Claim C9, as the code has it, for a lava block \<open>b\<close>. When \<open>detect_hazards\<close>
  returns normally on a block list that holds \<open>b\<close> at distance 2 from the agent, the
  result holds the lava hazard at the block's position with severity 1/3, unless five
  hazards of severity at least 1/3 fill the result. At a distance above 3 the loop
  makes no hazard from \<open>b\<close>, and no lava hazard of the result lies farther than 3
  from the agent.
\<close>

theorem detect_hazards_lava:
  assumes "blk_type b = Some ''lava''"
  shows "(euclid p (block_pos b) = 2 \<and> b \<in> set bs \<and> detect_hazards p bs = Inr hs
          \<longrightarrow> \<lparr>hazard_type = ''lava'', hazard_position = block_pos b, severity = 1/3\<rparr> \<in> set hs
              \<or> (length hs = 5 \<and> (\<forall>h \<in> set hs. 1/3 \<le> severity h)))
       \<and> (3 < euclid p (block_pos b) \<longrightarrow> block_hazard p b = Inr None)
       \<and> (detect_hazards p bs = Inr hs
          \<longrightarrow> (\<forall>h \<in> set hs. hazard_type h = ''lava'' \<longrightarrow> euclid p (hazard_position h) \<le> 3))"
proof (intro conjI impI ballI)
  assume a: "euclid p (block_pos b) = 2 \<and> b \<in> set bs \<and> detect_hazards p bs = Inr hs"
  let ?h = "\<lparr>hazard_type = ''lava'', hazard_position = block_pos b, severity = 1/3\<rparr>"
  from a obtain bhs where bhs: "block_hazards p bs = Inr bhs"
    and hs: "hs = take 5 (sort_reverse severity (fall_hazards p bs @ suffocation_hazards p bs @ bhs))"
    by (auto simp: detect_hazards_def split: sum.splits)
  have "block_hazard p b = Inr (Some ?h)"
    using a by (simp add: lava_block_hazard[OF assms])
  with bhs a have "?h \<in> set bhs" by (blast intro: block_hazards_mem)
  then have "?h \<in> set (fall_hazards p bs @ suffocation_hazards p bs @ bhs)" by simp
  from take_sort_reverse_mem[OF this, of 5 severity]
  show "?h \<in> set hs \<or> (length hs = 5 \<and> (\<forall>h \<in> set hs. 1/3 \<le> severity h))"
    unfolding hs by simp
next
  assume "3 < euclid p (block_pos b)"
  then show "block_hazard p b = Inr None" by (simp add: lava_block_hazard[OF assms])
next
  fix h assume d: "detect_hazards p bs = Inr hs" and h: "h \<in> set hs" "hazard_type h = ''lava''"
  from d obtain bhs where bhs: "block_hazards p bs = Inr bhs"
    and hs: "hs = take 5 (sort_reverse severity (fall_hazards p bs @ suffocation_hazards p bs @ bhs))"
    by (auto simp: detect_hazards_def split: sum.splits)
  from h(1) have "h \<in> set (fall_hazards p bs @ suffocation_hazards p bs @ bhs)"
    unfolding hs using in_set_takeD sort_reverse_set by fastforce
  with h(2) have "h \<in> set bhs"
    by (auto simp: fall_hazards_def suffocation_hazards_def Let_def split: if_splits)
  with bhs obtain b' where "block_hazard p b' = Inr (Some h)"
    by (blast dest: block_hazards_origin)
  then show "euclid p (hazard_position h) \<le> 3" using h(2) by (rule lava_hazard_origin)
qed

theorem detect_hazards_lava_witness:
  "blk_type \<lparr>blk_type = Some ''lava'', blk_x = Some 2, blk_y = Some 64, blk_z = Some 0, blk_solid = Some False\<rparr>
     = Some ''lava''
   \<and> euclid \<lparr>pos_x = 0, pos_y = 64, pos_z = 0\<rparr> (block_pos
       \<lparr>blk_type = Some ''lava'', blk_x = Some 2, blk_y = Some 64, blk_z = Some 0, blk_solid = Some False\<rparr>) = 2
   \<and> detect_hazards \<lparr>pos_x = 0, pos_y = 64, pos_z = 0\<rparr>
       [\<lparr>blk_type = Some ''lava'', blk_x = Some 2, blk_y = Some 64, blk_z = Some 0, blk_solid = Some False\<rparr>]
     = Inr [\<lparr>hazard_type = ''lava'', hazard_position = \<lparr>pos_x = 2, pos_y = 64, pos_z = 0\<rparr>, severity = 1/3\<rparr>]
   \<and> euclid \<lparr>pos_x = 0, pos_y = 64, pos_z = 0\<rparr>
       (hazard_position \<lparr>hazard_type = ''lava'', hazard_position = \<lparr>pos_x = 2, pos_y = 64, pos_z = 0\<rparr>, severity = 1/3\<rparr>)
     \<le> 3"
proof -
  let ?p = "\<lparr>pos_x = 0, pos_y = 64, pos_z = 0\<rparr>"
  let ?b = "\<lparr>blk_type = Some ''lava'', blk_x = Some 2, blk_y = Some 64, blk_z = Some 0, blk_solid = Some False\<rparr>"
  let ?h = "\<lparr>hazard_type = ''lava'', hazard_position = \<lparr>pos_x = 2, pos_y = 64, pos_z = 0\<rparr>, severity = 1/3\<rparr>"
  have t: "blk_type ?b = Some ''lava''" by simp
  have e: "euclid ?p (block_pos ?b) = 2"
    by (simp add: euclid_def block_pos_def dict_get_def)
  have d: "detect_hazards ?p [?b] = Inr [?h]"
    by (simp add: detect_hazards_def block_hazard_def dangerous_blocks_def block_pos_def
      dict_get_def euclid_def fall_hazards_def suffocation_hazards_def sort_reverse_def Let_def)
  from detect_hazards_lava[OF t, of ?p "[?b]" "[?h]"] d
  have "\<forall>h \<in> set [?h]. hazard_type h = ''lava'' \<longrightarrow> euclid ?p (hazard_position h) \<le> 3"
    by blast
  then have "euclid ?p (hazard_position ?h) \<le> 3" by simp
  with t e d show ?thesis by blast
qed

text \<open>
  Claim C9 fails in two places. A lava block at distance exactly 3 passes the test
  \<open>distance <= radius\<close> and yields a lava hazard of severity 0; and a lava block at
  distance 2 beside five fire blocks at the agent's position is cut off by the limit of
  five hazards, so that no lava hazard is returned.
\<close>

theorem detect_hazards_lava_boundary_and_cutoff:
  "detect_hazards \<lparr>pos_x = 0, pos_y = 0, pos_z = 0\<rparr>
     [\<lparr>blk_type = Some ''lava'', blk_x = Some 3, blk_y = Some 0, blk_z = Some 0, blk_solid = Some False\<rparr>]
   = Inr [\<lparr>hazard_type = ''lava'', hazard_position = \<lparr>pos_x = 3, pos_y = 0, pos_z = 0\<rparr>, severity = 0\<rparr>]
   \<and> detect_hazards \<lparr>pos_x = 0, pos_y = 0, pos_z = 0\<rparr>
     [\<lparr>blk_type = Some ''fire'', blk_x = Some 0, blk_y = Some 0, blk_z = Some 0, blk_solid = Some False\<rparr>,
      \<lparr>blk_type = Some ''fire'', blk_x = Some 0, blk_y = Some 0, blk_z = Some 0, blk_solid = Some False\<rparr>,
      \<lparr>blk_type = Some ''fire'', blk_x = Some 0, blk_y = Some 0, blk_z = Some 0, blk_solid = Some False\<rparr>,
      \<lparr>blk_type = Some ''fire'', blk_x = Some 0, blk_y = Some 0, blk_z = Some 0, blk_solid = Some False\<rparr>,
      \<lparr>blk_type = Some ''fire'', blk_x = Some 0, blk_y = Some 0, blk_z = Some 0, blk_solid = Some False\<rparr>,
      \<lparr>blk_type = Some ''lava'', blk_x = Some 2, blk_y = Some 0, blk_z = Some 0, blk_solid = Some False\<rparr>]
   = Inr [\<lparr>hazard_type = ''fire'', hazard_position = \<lparr>pos_x = 0, pos_y = 0, pos_z = 0\<rparr>, severity = 7/10\<rparr>,
          \<lparr>hazard_type = ''fire'', hazard_position = \<lparr>pos_x = 0, pos_y = 0, pos_z = 0\<rparr>, severity = 7/10\<rparr>,
          \<lparr>hazard_type = ''fire'', hazard_position = \<lparr>pos_x = 0, pos_y = 0, pos_z = 0\<rparr>, severity = 7/10\<rparr>,
          \<lparr>hazard_type = ''fire'', hazard_position = \<lparr>pos_x = 0, pos_y = 0, pos_z = 0\<rparr>, severity = 7/10\<rparr>,
          \<lparr>hazard_type = ''fire'', hazard_position = \<lparr>pos_x = 0, pos_y = 0, pos_z = 0\<rparr>, severity = 7/10\<rparr>]"
  by (simp add: detect_hazards_def block_hazard_def dangerous_blocks_def block_pos_def
      dict_get_def euclid_def fall_hazards_def suffocation_hazards_def sort_reverse_def Let_def sqrt_9)

text \<open>
  Claim C2 (the engine never raises): a cactus block at the agent's position is within its
  radius 0, and \<open>distance / info["radius"]\<close> divides by that radius. The block below
  has no coordinates, so they default to 0, and the agent stands at the origin.
\<close>

theorem detect_hazards_cactus_raises:
  "detect_hazards \<lparr>pos_x = 0, pos_y = 0, pos_z = 0\<rparr>
     [\<lparr>blk_type = Some ''cactus'', blk_x = None, blk_y = None, blk_z = None, blk_solid = None\<rparr>]
   = Inl ZeroDivisionError"
  by (simp add: detect_hazards_def block_hazard_def dangerous_blocks_def block_pos_def
      dict_get_def euclid_def Let_def)

section \<open>Properties of the agent actor\<close>

subsection \<open>Tactical requests\<close>

lemma detect_hazards_no_blocks: "detect_hazards p [] = Inr []"
  by (simp add: detect_hazards_def fall_hazards_def suffocation_hazards_def sort_reverse_def)

lemma assess_threats_warden_healthy:
  "assess_threats \<lparr>pos_x = 0, pos_y = 64, pos_z = 0\<rparr>
      [\<lparr>ent_type = Some ''warden'', ent_x = Some 0, ent_y = Some 64, ent_z = Some 0, ent_health = None\<rparr>]
      20 (1/2)
    = [\<lparr>entity_type = ''warden'', threat_position = \<lparr>pos_x = 0, pos_y = 64, pos_z = 0\<rparr>,
        distance = 0, danger_level = 3/5, estimated_health = 20\<rparr>]"
  by (simp add: assess_threats_def sort_reverse_def entity_threat_def entity_pos_def
      euclid_def calculate_danger_level_def rating_warden dict_get_def Let_def)

lemma ensure_loaded_loaded: "state_data a = Some s \<Longrightarrow> ensure_loaded now a = (a, Inr ())"
  by (simp add: ensure_loaded_def)

lemma with_state_loaded: "state_data a = Some s \<Longrightarrow> with_state now a f = f a s"
  by (simp add: with_state_def ensure_loaded_loaded)

lemma detect_hazards_cactus_origin:
  "detect_hazards \<lparr>pos_x = 0, pos_y = 64, pos_z = 0\<rparr>
     [\<lparr>blk_type = Some ''cactus'', blk_x = Some 0, blk_y = Some 64, blk_z = Some 0, blk_solid = None\<rparr>]
    = Inl ZeroDivisionError"
  by (simp add: detect_hazards_def block_hazard_def block_pos_def dangerous_blocks_def euclid_def
      dict_get_def Let_def)

text \<open>
  Claim C10, as the code has it. In the tactical handler \<open>assess_threats\<close> is called with
  the combat score 0.5, whatever \<open>combatScore\<close> the request body holds; then
  \<open>detect_hazards\<close> is called; when it returns, \<open>get_quick_decision\<close> is called with
  the body's \<open>combatScore\<close>, 0.0 when the key is missing, and when it raises the decision
  cascade is not called. For every request and every actor the handler loads the state,
  refuses a method other than POST with 405, raises the error of a malformed \<open>position\<close>
  before any call into the engine, and otherwise makes these calls on the body and the
  state with the position updated; after the decision it raises \<open>AttributeError\<close> at
  \<open>decision.to_dict()\<close>, the assessed threats and hazards stored in the state.
\<close>

theorem handle_tactical_combat_score:
  "tactical_analysis b s =
    ([Call_assess_threats (state_position s) (dict_get (b_nearbyEntities b) [])
         (dict_get (b_health b) (health s)) (1/2),
      Call_detect_hazards (state_position s) (dict_get (b_nearbyBlocks b) [])]
     @ (case detect_hazards (state_position s) (dict_get (b_nearbyBlocks b) []) of
          Inl e \<Rightarrow> []
        | Inr hazards \<Rightarrow>
            [Call_get_quick_decision
               (assess_threats (state_position s) (dict_get (b_nearbyEntities b) [])
                  (dict_get (b_health b) (health s)) (1/2))
               hazards
               (case b_combatScore b of None \<Rightarrow> 0 | Some c \<Rightarrow> c)
               (current_task s)]),
     case detect_hazards (state_position s) (dict_get (b_nearbyBlocks b) []) of
       Inl e \<Rightarrow> Inl e
     | Inr hazards \<Rightarrow>
         Inr (assess_threats (state_position s) (dict_get (b_nearbyEntities b) [])
                (dict_get (b_health b) (health s)) (1/2),
              hazards,
              get_quick_decision
                (assess_threats (state_position s) (dict_get (b_nearbyEntities b) [])
                   (dict_get (b_health b) (health s)) (1/2))
                hazards
                (case b_combatScore b of None \<Rightarrow> 0 | Some c \<Rightarrow> c)
                (current_task s),
              s\<lparr>active_threats := map TacticalThreat
                    (assess_threats (state_position s) (dict_get (b_nearbyEntities b) [])
                       (dict_get (b_health b) (health s)) (1/2)),
                 known_hazards := map TacticalHazard hazards,
                 health := dict_get (b_health b) (health s)\<rparr>))
   \<and> handle_tactical req now a =
       with_state now a (\<lambda>a1 s0.
         if req_method req \<noteq> ''POST'' then (a1, Inr method_not_allowed)
         else (case update_position (req_body req) s0 of
                 Inl e \<Rightarrow> (a1, Inl e)
               | Inr s1 \<Rightarrow>
                   (case tactical_analysis (req_body req) s1 of
                      (calls, Inl e) \<Rightarrow> (put_state a1 s1, Inl e)
                    | (calls, Inr (threats, hazards, decision, s2)) \<Rightarrow>
                        (put_state a1 s2, Inl AttributeError))))"
proof
  show "tactical_analysis b s =
    ([Call_assess_threats (state_position s) (dict_get (b_nearbyEntities b) [])
         (dict_get (b_health b) (health s)) (1/2),
      Call_detect_hazards (state_position s) (dict_get (b_nearbyBlocks b) [])]
     @ (case detect_hazards (state_position s) (dict_get (b_nearbyBlocks b) []) of
          Inl e \<Rightarrow> []
        | Inr hazards \<Rightarrow>
            [Call_get_quick_decision
               (assess_threats (state_position s) (dict_get (b_nearbyEntities b) [])
                  (dict_get (b_health b) (health s)) (1/2))
               hazards
               (case b_combatScore b of None \<Rightarrow> 0 | Some c \<Rightarrow> c)
               (current_task s)]),
     case detect_hazards (state_position s) (dict_get (b_nearbyBlocks b) []) of
       Inl e \<Rightarrow> Inl e
     | Inr hazards \<Rightarrow>
         Inr (assess_threats (state_position s) (dict_get (b_nearbyEntities b) [])
                (dict_get (b_health b) (health s)) (1/2),
              hazards,
              get_quick_decision
                (assess_threats (state_position s) (dict_get (b_nearbyEntities b) [])
                   (dict_get (b_health b) (health s)) (1/2))
                hazards
                (case b_combatScore b of None \<Rightarrow> 0 | Some c \<Rightarrow> c)
                (current_task s),
              s\<lparr>active_threats := map TacticalThreat
                    (assess_threats (state_position s) (dict_get (b_nearbyEntities b) [])
                       (dict_get (b_health b) (health s)) (1/2)),
                 known_hazards := map TacticalHazard hazards,
                 health := dict_get (b_health b) (health s)\<rparr>))"
    by (cases "detect_hazards (state_position s) (dict_get (b_nearbyBlocks b) [])")
       (simp_all add: tactical_analysis_def call_assess_threats_def call_detect_hazards_def
          call_get_quick_decision_def Let_def dict_get_def)
next
  show "handle_tactical req now a =
       with_state now a (\<lambda>a1 s0.
         if req_method req \<noteq> ''POST'' then (a1, Inr method_not_allowed)
         else (case update_position (req_body req) s0 of
                 Inl e \<Rightarrow> (a1, Inl e)
               | Inr s1 \<Rightarrow>
                   (case tactical_analysis (req_body req) s1 of
                      (calls, Inl e) \<Rightarrow> (put_state a1 s1, Inl e)
                    | (calls, Inr (threats, hazards, decision, s2)) \<Rightarrow>
                        (put_state a1 s2, Inl AttributeError))))"
    unfolding handle_tactical_def decision_to_dict_def
    by (intro arg_cong[where f = "with_state now a"] ext)
       (simp split: sum.splits prod.splits)
qed

theorem handle_tactical_combat_score_witness:
  "fst (tactical_analysis
      \<lparr>b_position = None, b_status = None, b_health = None, b_hunger = None, b_currentTask = None,
       b_mission = None,
       b_nearbyEntities = Some [\<lparr>ent_type = Some ''warden'', ent_x = Some 0, ent_y = Some 64,
                                 ent_z = Some 0, ent_health = None\<rparr>],
       b_nearbyBlocks = None, b_combatScore = None, b_type = None, b_data = None\<rparr>
      (initial_state ''steve'' 0))
    = [Call_assess_threats \<lparr>pos_x = 0, pos_y = 64, pos_z = 0\<rparr>
         [\<lparr>ent_type = Some ''warden'', ent_x = Some 0, ent_y = Some 64, ent_z = Some 0, ent_health = None\<rparr>]
         20 (1/2),
       Call_detect_hazards \<lparr>pos_x = 0, pos_y = 64, pos_z = 0\<rparr> [],
       Call_get_quick_decision
         [\<lparr>entity_type = ''warden'', threat_position = \<lparr>pos_x = 0, pos_y = 64, pos_z = 0\<rparr>,
           distance = 0, danger_level = 3/5, estimated_health = 20\<rparr>]
         [] 0 None]
   \<and> fst (tactical_analysis
      \<lparr>b_position = None, b_status = None, b_health = None, b_hunger = None, b_currentTask = None,
       b_mission = None,
       b_nearbyEntities = Some [\<lparr>ent_type = Some ''warden'', ent_x = Some 0, ent_y = Some 64,
                                 ent_z = Some 0, ent_health = None\<rparr>],
       b_nearbyBlocks = None, b_combatScore = Some (9/10), b_type = None, b_data = None\<rparr>
      (initial_state ''steve'' 0))
    = [Call_assess_threats \<lparr>pos_x = 0, pos_y = 64, pos_z = 0\<rparr>
         [\<lparr>ent_type = Some ''warden'', ent_x = Some 0, ent_y = Some 64, ent_z = Some 0, ent_health = None\<rparr>]
         20 (1/2),
       Call_detect_hazards \<lparr>pos_x = 0, pos_y = 64, pos_z = 0\<rparr> [],
       Call_get_quick_decision
         [\<lparr>entity_type = ''warden'', threat_position = \<lparr>pos_x = 0, pos_y = 64, pos_z = 0\<rparr>,
           distance = 0, danger_level = 3/5, estimated_health = 20\<rparr>]
         [] (9/10) None]
   \<and> state_data (fst (handle_tactical
      \<lparr>req_method = ''POST'', req_path = ''/agents/steve/tactical'',
       req_body = \<lparr>b_position = None, b_status = None, b_health = None, b_hunger = None,
         b_currentTask = None, b_mission = None,
         b_nearbyEntities = Some [\<lparr>ent_type = Some ''warden'', ent_x = Some 0, ent_y = Some 64,
                                   ent_z = Some 0, ent_health = None\<rparr>],
         b_nearbyBlocks = None, b_combatScore = None, b_type = None, b_data = None\<rparr>\<rparr>
      5 (new_actor ''steve'')))
    = Some ((initial_state ''steve'' 5)
             \<lparr>active_threats := [TacticalThreat \<lparr>entity_type = ''warden'',
                  threat_position = \<lparr>pos_x = 0, pos_y = 64, pos_z = 0\<rparr>,
                  distance = 0, danger_level = 3/5, estimated_health = 20\<rparr>]\<rparr>)
   \<and> snd (handle_tactical
      \<lparr>req_method = ''POST'', req_path = ''/agents/steve/tactical'',
       req_body = \<lparr>b_position = None, b_status = None, b_health = None, b_hunger = None,
         b_currentTask = None, b_mission = None,
         b_nearbyEntities = Some [\<lparr>ent_type = Some ''warden'', ent_x = Some 0, ent_y = Some 64,
                                   ent_z = Some 0, ent_health = None\<rparr>],
         b_nearbyBlocks = None, b_combatScore = None, b_type = None, b_data = None\<rparr>\<rparr>
      5 (new_actor ''steve''))
    = Inl AttributeError"
proof -
  let ?w = "\<lparr>ent_type = Some ''warden'', ent_x = Some 0, ent_y = Some 64, ent_z = Some 0, ent_health = None\<rparr>"
  let ?b0 = "\<lparr>b_position = None, b_status = None, b_health = None, b_hunger = None, b_currentTask = None,
       b_mission = None, b_nearbyEntities = Some [?w],
       b_nearbyBlocks = None, b_combatScore = None, b_type = None, b_data = None\<rparr>"
  let ?b9 = "\<lparr>b_position = None, b_status = None, b_health = None, b_hunger = None, b_currentTask = None,
       b_mission = None, b_nearbyEntities = Some [?w],
       b_nearbyBlocks = None, b_combatScore = Some (9/10), b_type = None, b_data = None\<rparr>"
  let ?req = "\<lparr>req_method = ''POST'', req_path = ''/agents/steve/tactical'', req_body = ?b0\<rparr>"
  have s0: "state_position (initial_state ''steve'' t) = \<lparr>pos_x = 0, pos_y = 64, pos_z = 0\<rparr>"
    "health (initial_state ''steve'' t) = 20" "current_task (initial_state ''steve'' t) = None" for t
    by (simp_all add: initial_state_def)
  have c0: "fst (tactical_analysis ?b0 (initial_state ''steve'' 0)) =
      [Call_assess_threats \<lparr>pos_x = 0, pos_y = 64, pos_z = 0\<rparr> [?w] 20 (1/2),
       Call_detect_hazards \<lparr>pos_x = 0, pos_y = 64, pos_z = 0\<rparr> [],
       Call_get_quick_decision
         [\<lparr>entity_type = ''warden'', threat_position = \<lparr>pos_x = 0, pos_y = 64, pos_z = 0\<rparr>,
           distance = 0, danger_level = 3/5, estimated_health = 20\<rparr>]
         [] 0 None]"
    using handle_tactical_combat_score[of ?b0 "initial_state ''steve'' 0" ?req 5 "new_actor ''steve''"]
    by (simp add: s0 dict_get_def detect_hazards_no_blocks assess_threats_warden_healthy)
  have c9: "fst (tactical_analysis ?b9 (initial_state ''steve'' 0)) =
      [Call_assess_threats \<lparr>pos_x = 0, pos_y = 64, pos_z = 0\<rparr> [?w] 20 (1/2),
       Call_detect_hazards \<lparr>pos_x = 0, pos_y = 64, pos_z = 0\<rparr> [],
       Call_get_quick_decision
         [\<lparr>entity_type = ''warden'', threat_position = \<lparr>pos_x = 0, pos_y = 64, pos_z = 0\<rparr>,
           distance = 0, danger_level = 3/5, estimated_health = 20\<rparr>]
         [] (9/10) None]"
    using handle_tactical_combat_score[of ?b9 "initial_state ''steve'' 0" ?req 5 "new_actor ''steve''"]
    by (simp add: s0 dict_get_def detect_hazards_no_blocks assess_threats_warden_healthy)
  obtain d0 where sr: "serialize_state (initial_state ''steve'' 5) = Inr d0"
    by (simp add: serialize_state_def initial_state_def)
  have la: "(initial_state ''steve'' 5)\<lparr>last_active := 5\<rparr> = initial_state ''steve'' 5"
    by (simp add: initial_state_def)
  have load: "with_state 5 (new_actor ''steve'') f =
      f \<lparr>object_id = ''steve'', storage = Some d0, self_agent_id = Some ''steve'',
          state_data = Some (initial_state ''steve'' 5)\<rparr> (initial_state ''steve'' 5)" for f :: "actor \<Rightarrow> agent_state \<Rightarrow> actor \<times> (py_error + response)"
    by (simp add: with_state_def ensure_loaded_def save_state_def new_actor_def sr la)
  obtain calls where ta: "tactical_analysis ?b0 (initial_state ''steve'' 5) =
      (calls, Inr ([\<lparr>entity_type = ''warden'', threat_position = \<lparr>pos_x = 0, pos_y = 64, pos_z = 0\<rparr>,
             distance = 0, danger_level = 3/5, estimated_health = 20\<rparr>], [],
           get_quick_decision [\<lparr>entity_type = ''warden'', threat_position = \<lparr>pos_x = 0, pos_y = 64, pos_z = 0\<rparr>,
             distance = 0, danger_level = 3/5, estimated_health = 20\<rparr>] [] 0 None,
           (initial_state ''steve'' 5)
             \<lparr>active_threats := [TacticalThreat \<lparr>entity_type = ''warden'',
                  threat_position = \<lparr>pos_x = 0, pos_y = 64, pos_z = 0\<rparr>,
                  distance = 0, danger_level = 3/5, estimated_health = 20\<rparr>]\<rparr>))"
    using handle_tactical_combat_score[of ?b0 "initial_state ''steve'' 5" ?req 5 "new_actor ''steve''"]
    by (simp add: s0 dict_get_def detect_hazards_no_blocks assess_threats_warden_healthy)
       (simp add: initial_state_def)
  have up: "update_position ?b0 s = Inr s" for s
    by (simp add: update_position_def)
  have h: "handle_tactical ?req 5 (new_actor ''steve'') =
      (put_state \<lparr>object_id = ''steve'', storage = Some d0,
                  self_agent_id = Some ''steve'', state_data = Some (initial_state ''steve'' 5)\<rparr>
         ((initial_state ''steve'' 5)
             \<lparr>active_threats := [TacticalThreat \<lparr>entity_type = ''warden'',
                  threat_position = \<lparr>pos_x = 0, pos_y = 64, pos_z = 0\<rparr>,
                  distance = 0, danger_level = 3/5, estimated_health = 20\<rparr>]\<rparr>),
       Inl AttributeError)"
    using handle_tactical_combat_score[of ?b0 "initial_state ''steve'' 5" ?req 5 "new_actor ''steve''"]
    by (simp add: load up ta)
  show ?thesis
    using c0 c9 h by (simp add: put_state_def)
qed

text \<open>
  Claim C10 as worded fails on the code: not every POST body reaches the calls. A body
  whose \<open>position\<close> lacks a coordinate raises \<open>KeyError\<close> in \<open>Position.from_dict\<close>
  before any call into the engine; a body with a cactus at the agent's position makes
  \<open>detect_hazards\<close> raise, and \<open>get_quick_decision\<close> is not called.
\<close>

theorem handle_tactical_no_decision_call:
  "handle_tactical
      \<lparr>req_method = ''POST'', req_path = ''/agents/steve/tactical'',
       req_body = \<lparr>b_position = Some (JObj [(''x'', JFloat 1)]), b_status = None, b_health = None,
         b_hunger = None, b_currentTask = None, b_mission = None, b_nearbyEntities = None,
         b_nearbyBlocks = None, b_combatScore = Some (9/10), b_type = None, b_data = None\<rparr>\<rparr>
      1 (put_state (new_actor ''steve'') (initial_state ''steve'' 0))
    = (put_state (new_actor ''steve'') (initial_state ''steve'' 0), Inl KeyError)
   \<and> tactical_analysis
      \<lparr>b_position = None, b_status = None, b_health = None, b_hunger = None, b_currentTask = None,
       b_mission = None, b_nearbyEntities = None,
       b_nearbyBlocks = Some [\<lparr>blk_type = Some ''cactus'', blk_x = Some 0, blk_y = Some 64,
                               blk_z = Some 0, blk_solid = None\<rparr>],
       b_combatScore = Some (9/10), b_type = None, b_data = None\<rparr>
      (initial_state ''steve'' 0)
    = ([Call_assess_threats \<lparr>pos_x = 0, pos_y = 64, pos_z = 0\<rparr> [] 20 (1/2),
        Call_detect_hazards \<lparr>pos_x = 0, pos_y = 64, pos_z = 0\<rparr>
          [\<lparr>blk_type = Some ''cactus'', blk_x = Some 0, blk_y = Some 64, blk_z = Some 0, blk_solid = None\<rparr>]],
       Inl ZeroDivisionError)"
proof
  show "handle_tactical
      \<lparr>req_method = ''POST'', req_path = ''/agents/steve/tactical'',
       req_body = \<lparr>b_position = Some (JObj [(''x'', JFloat 1)]), b_status = None, b_health = None,
         b_hunger = None, b_currentTask = None, b_mission = None, b_nearbyEntities = None,
         b_nearbyBlocks = None, b_combatScore = Some (9/10), b_type = None, b_data = None\<rparr>\<rparr>
      1 (put_state (new_actor ''steve'') (initial_state ''steve'' 0))
    = (put_state (new_actor ''steve'') (initial_state ''steve'' 0), Inl KeyError)"
    by (simp add: handle_tactical_def with_state_def ensure_loaded_def put_state_def
        update_position_def position_from_dict_def then_result_def subscript_def as_number_def)
next
  show "tactical_analysis
      \<lparr>b_position = None, b_status = None, b_health = None, b_hunger = None, b_currentTask = None,
       b_mission = None, b_nearbyEntities = None,
       b_nearbyBlocks = Some [\<lparr>blk_type = Some ''cactus'', blk_x = Some 0, blk_y = Some 64,
                               blk_z = Some 0, blk_solid = None\<rparr>],
       b_combatScore = Some (9/10), b_type = None, b_data = None\<rparr>
      (initial_state ''steve'' 0)
    = ([Call_assess_threats \<lparr>pos_x = 0, pos_y = 64, pos_z = 0\<rparr> [] 20 (1/2),
        Call_detect_hazards \<lparr>pos_x = 0, pos_y = 64, pos_z = 0\<rparr>
          [\<lparr>blk_type = Some ''cactus'', blk_x = Some 0, blk_y = Some 64, blk_z = Some 0, blk_solid = None\<rparr>]],
       Inl ZeroDivisionError)"
    by (simp add: tactical_analysis_def call_assess_threats_def call_detect_hazards_def Let_def
        dict_get_def initial_state_def detect_hazards_cactus_origin)
qed

subsection \<open>Persistence round trip\<close>

lemma last_n_short: "length xs \<le> n \<Longrightarrow> last_n n xs = xs"
  by (simp add: last_n_def)

lemma position_round_trip: "position_from_dict (position_to_dict p) = Inr p"
  by (simp add: position_from_dict_def position_to_dict_def then_result_def subscript_def as_number_def)

lemma AgentStatus_value: "AgentStatus (status_value st) = Inr st"
  by (cases st) (simp_all add: AgentStatus_def)

lemma as_task_json: "as_task (json_of_task t) = Inr t"
  by (cases t) (simp_all add: as_task_def json_of_task_def)

text \<open>A state without threats and hazards, within the telemetry cap, is read back as it
  was written.\<close>

lemma round_trip_no_threats:
  assumes "active_threats s = []" and "known_hazards s = []" and "length (telemetry_events s) \<le> 100"
  shows "then_result (serialize_state s) deserialize_state = Inr s"
  using assms
  by (simp add: serialize_state_def deserialize_state_def then_result_def subscript_def get_or_def
      as_str_def as_int_def as_list_def fromisoformat_def
      AgentStatus_value as_task_json last_n_short position_round_trip)

text \<open>The dictionary of a threat has the key \<open>entityType\<close>, which is no field of
  \<open>Threat\<close>; the dictionary of a hazard has \<open>hazardType\<close>.\<close>

lemma Threat_kwargs_to_dict: "threat_to_dict t = Inr j \<Longrightarrow> Threat_kwargs j = Inl TypeError"
  by (cases t) (auto simp: Threat_kwargs_def accepts_kwargs_def Threat_fields_def)

lemma Hazard_kwargs_to_dict: "hazard_to_dict h = Inr j \<Longrightarrow> Hazard_kwargs j = Inl TypeError"
  by (cases h) (auto simp: Hazard_kwargs_def accepts_kwargs_def Hazard_fields_def)

lemma map_result_Threat_kwargs:
  "map_result threat_to_dict ts = Inr js \<Longrightarrow> ts \<noteq> [] \<Longrightarrow> map_result Threat_kwargs js = Inl TypeError"
  by (cases ts) (auto split: sum.splits simp: Threat_kwargs_to_dict)

text \<open>Every state that holds a threat and can be written is refused when read back.\<close>

lemma round_trip_threats_raise:
  assumes "active_threats s \<noteq> []" and "serialize_state s = Inr d"
  shows "deserialize_state d = Inl TypeError"
proof -
  from assms(2) obtain ts hs where ts: "map_result threat_to_dict (active_threats s) = Inr ts"
    and hs: "map_result hazard_to_dict (known_hazards s) = Inr hs"
    by (auto simp: serialize_state_def split: sum.splits)
  have "map_result Threat_kwargs ts = Inl TypeError"
    using ts assms(1) by (rule map_result_Threat_kwargs)
  with assms(2) ts hs show ?thesis
    by (auto simp: serialize_state_def deserialize_state_def then_result_def subscript_def get_or_def
      as_str_def as_int_def as_list_def fromisoformat_def
      AgentStatus_value as_task_json position_round_trip)
qed

text \<open>
  Claim C3 fails on the code: a state holding one threat is written by
  \<open>_serialize_state\<close> and the dictionary written is refused by \<open>_deserialize_state\<close>,
  which raises \<open>TypeError\<close> at \<open>Threat(**t)\<close>.
\<close>

theorem deserialize_state_threat_raises:
  "serialize_state
     ((initial_state ''steve'' 0)
        \<lparr>active_threats := [IndexThreat \<lparr>entity_type = ''zombie'',
             threat_position = \<lparr>pos_x = 5, pos_y = 64, pos_z = 0\<rparr>,
             distance = 5, danger_level = 3/5, estimated_health = 20\<rparr>]\<rparr>)
    = Inr (JObj [(''agentId'', JStr ''steve''), (''status'', JStr ''idle''),
                 (''position'', JObj [(''x'', JFloat 0), (''y'', JFloat 64), (''z'', JFloat 0)]),
                 (''health'', JInt 20), (''hunger'', JInt 20), (''currentTask'', JNull),
                 (''inventorySlots'', JInt 36), (''lastActive'', JIso 0),
                 (''activeThreats'', JList [JObj [(''entityType'', JStr ''zombie''),
                    (''position'', JObj [(''x'', JFloat 5), (''y'', JFloat 64), (''z'', JFloat 0)]),
                    (''distance'', JFloat 5), (''dangerLevel'', JFloat (3/5)),
                    (''estimatedHealth'', JInt 20)]]),
                 (''knownHazards'', JList []), (''missionQueue'', JList []),
                 (''telemetryEvents'', JList [])])
   \<and> deserialize_state
        (JObj [(''agentId'', JStr ''steve''), (''status'', JStr ''idle''),
                 (''position'', JObj [(''x'', JFloat 0), (''y'', JFloat 64), (''z'', JFloat 0)]),
                 (''health'', JInt 20), (''hunger'', JInt 20), (''currentTask'', JNull),
                 (''inventorySlots'', JInt 36), (''lastActive'', JIso 0),
                 (''activeThreats'', JList [JObj [(''entityType'', JStr ''zombie''),
                    (''position'', JObj [(''x'', JFloat 5), (''y'', JFloat 64), (''z'', JFloat 0)]),
                    (''distance'', JFloat 5), (''dangerLevel'', JFloat (3/5)),
                    (''estimatedHealth'', JInt 20)]]),
                 (''knownHazards'', JList []), (''missionQueue'', JList []),
                 (''telemetryEvents'', JList [])])
    = Inl TypeError"
  by (simp add: serialize_state_def initial_state_def position_to_dict_def json_of_task_def last_n_def
      deserialize_state_def then_result_def subscript_def get_or_def as_str_def as_int_def
      as_list_def as_task_def as_number_def fromisoformat_def position_from_dict_def AgentStatus_def
      Threat_kwargs_def accepts_kwargs_def Threat_fields_def)

subsection \<open>Telemetry buffer\<close>

lemma length_last_n_le: "length (last_n n xs) \<le> n"
  by (simp add: last_n_def)

lemma stored_events_serialize: "serialize_state s = Inr d \<Longrightarrow> stored_events d = last_n 100 (telemetry_events s)"
  by (auto simp: serialize_state_def stored_events_def get_or_def split: sum.splits)

lemma then_result_Inr: "then_result r f = Inr v \<longleftrightarrow> (\<exists>x. r = Inr x \<and> f x = Inr v)"
  by (cases r) (simp_all add: then_result_def)

lemma as_list_Inr: "as_list v = Inr xs \<Longrightarrow> v = JList xs"
  by (cases v) (simp_all add: as_list_def)

lemma deserialize_state_events:
  assumes "deserialize_state d = Inr s"
  shows "telemetry_events s = stored_events d"
proof (cases d)
  case (JObj kvs)
  with assms obtain evs where e: "as_list (get_or kvs ''telemetryEvents'' (JList [])) = Inr evs"
    and s: "telemetry_events s = evs"
    by (auto simp: deserialize_state_def then_result_Inr)
  from e have "get_or kvs ''telemetryEvents'' (JList []) = JList evs" by (rule as_list_Inr)
  with s JObj show ?thesis by (simp add: stored_events_def)
qed (use assms in \<open>simp_all add: deserialize_state_def\<close>)


lemma telemetry_capped_state:
  "telemetry_capped a \<Longrightarrow> state_data a = Some s \<Longrightarrow> length (telemetry_events s) \<le> 100"
  by (simp add: telemetry_capped_def)

lemma put_state_capped:
  "telemetry_capped a \<Longrightarrow> length (telemetry_events s) \<le> 100 \<Longrightarrow> telemetry_capped (put_state a s)"
  by (simp add: telemetry_capped_def put_state_def)

lemma save_state_capped: "telemetry_capped a \<Longrightarrow> telemetry_capped (fst (save_state now a))"
proof (cases "state_data a")
  case None
  then show "telemetry_capped a \<Longrightarrow> ?thesis" by (simp add: save_state_def)
next
  case (Some s)
  assume c: "telemetry_capped a"
  show ?thesis
  proof (cases "serialize_state s")
    case (Inl e)
    with Some c show ?thesis by (simp add: save_state_def)
  next
    case (Inr d)
    have "length (stored_events d) \<le> 100"
      using stored_events_serialize[OF Inr] by (simp add: length_last_n_le)
    with Some Inr c show ?thesis by (simp add: save_state_def telemetry_capped_def)
  qed
qed

lemma ensure_loaded_capped: "telemetry_capped a \<Longrightarrow> telemetry_capped (fst (ensure_loaded now a))"
proof (cases "state_data a")
  case (Some s)
  then show "telemetry_capped a \<Longrightarrow> ?thesis" by (simp add: ensure_loaded_def)
next
  case None
  assume c: "telemetry_capped a"
  show ?thesis
  proof (cases "case storage a of None \<Rightarrow> False | Some data \<Rightarrow> truthy data")
    case True
    then obtain d where d: "storage a = Some d" by (cases "storage a") simp_all
    show ?thesis
    proof (cases "deserialize_state d")
      case (Inl e)
      with None True d c show ?thesis by (simp add: ensure_loaded_def)
    next
      case (Inr s)
      have "length (telemetry_events s) \<le> 100"
        using deserialize_state_events[OF Inr] c d by (simp add: telemetry_capped_def)
      with None True d Inr c show ?thesis by (simp add: ensure_loaded_def telemetry_capped_def)
    qed
  next
    case False
    have "telemetry_capped (a\<lparr>self_agent_id := Some (object_id a),
                               state_data := Some (initial_state (object_id a) now)\<rparr>)"
      using c by (simp add: telemetry_capped_def initial_state_def)
    then have "telemetry_capped (fst (save_state now (a\<lparr>self_agent_id := Some (object_id a),
                               state_data := Some (initial_state (object_id a) now)\<rparr>)))"
      by (rule save_state_capped)
    with None False show ?thesis by (simp add: ensure_loaded_def)
  qed
qed

lemma with_state_capped:
  assumes "telemetry_capped a"
    and "\<And>a1 s. telemetry_capped a1 \<Longrightarrow> state_data a1 = Some s \<Longrightarrow> telemetry_capped (fst (f a1 s))"
  shows "telemetry_capped (fst (with_state now a f))"
proof -
  obtain a1 r where l: "ensure_loaded now a = (a1, r)" by (cases "ensure_loaded now a")
  have c1: "telemetry_capped a1"
    using ensure_loaded_capped[OF assms(1), of now] l by simp
  show ?thesis
  proof (cases r)
    case (Inl e)
    with l c1 show ?thesis by (simp add: with_state_def)
  next
    case (Inr u)
    show ?thesis
    proof (cases "state_data a1")
      case None
      with l Inr c1 show ?thesis by (simp add: with_state_def)
    next
      case (Some s)
      with l Inr assms(2)[OF c1 Some] show ?thesis by (simp add: with_state_def)
    qed
  qed
qed

lemma log_telemetry_capped:
  "telemetry_capped a \<Longrightarrow> telemetry_capped (fst (log_telemetry now event_type data a))"
  unfolding log_telemetry_def
  by (rule with_state_capped, assumption, unfold Let_def, rule save_state_capped, rule put_state_capped)
     (simp_all add: length_last_n_le)


lemma update_position_events:
  "update_position b s = Inr s1 \<Longrightarrow> telemetry_events s1 = telemetry_events s"
  by (auto simp: update_position_def then_result_Inr split: option.splits)

lemma update_status_events:
  "update_status b s = Inr s1 \<Longrightarrow> telemetry_events s1 = telemetry_events s"
  by (auto simp: update_status_def then_result_Inr split: option.splits)

lemma tactical_analysis_events:
  "tactical_analysis b s = (calls, Inr (ts, hs, d, s2)) \<Longrightarrow> telemetry_events s2 = telemetry_events s"
  by (cases "detect_hazards (state_position s) (dict_get (b_nearbyBlocks b) [])")
     (auto simp: tactical_analysis_def call_assess_threats_def call_detect_hazards_def
        call_get_quick_decision_def Let_def)

lemma handle_sync_capped:
  assumes "telemetry_capped a"
  shows "telemetry_capped (fst (handle_sync req now a))"
  unfolding handle_sync_def
proof (rule with_state_capped[OF assms])
  fix a1 s
  assume c: "telemetry_capped a1" and st: "state_data a1 = Some s"
  have le: "length (telemetry_events s) \<le> 100" using c st by (rule telemetry_capped_state)
  let ?b = "req_body req"
  show "telemetry_capped (fst (
      if req_method req = ''GET'' then
        (case serialize_state s of
           Inl e \<Rightarrow> (a1, Inl e)
         | Inr d \<Rightarrow> (a1, Inr (json_response 200 d)))
      else if req_method req = ''POST'' then
        (let b = req_body req in
         case update_position b s of
           Inl e \<Rightarrow> (a1, Inl e)
         | Inr s1 \<Rightarrow>
        (case update_status b s1 of
           Inl e \<Rightarrow> (put_state a1 s1, Inl e)
         | Inr s2 \<Rightarrow>
            let s3 = s2\<lparr>health := dict_get (b_health b) (health s2),
                        hunger := dict_get (b_hunger b) (hunger s2),
                        current_task := dict_get (b_currentTask b) (current_task s2),
                        mission_queue := (case b_mission b of
                                            None \<Rightarrow> mission_queue s2
                                          | Some m \<Rightarrow> mission_queue s2 @ [m])\<rparr>
            in (case save_state now (put_state a1 s3) of
                  (a2, Inl e) \<Rightarrow> (a2, Inl e)
                | (a2, Inr u) \<Rightarrow>
                    (a2, Inr (json_response 200
                       (JObj [(''status'', JStr ''synced''),
                              (''agentId'', JStr (agent_id s3)),
                              (''timestamp'', JIso now)]))))))
      else (a1, Inr method_not_allowed)))"
  proof (cases "req_method req = ''GET''")
    case True
    with c show ?thesis by (simp split: sum.splits)
  next
    case ng: False
    show ?thesis
    proof (cases "req_method req = ''POST''")
      case False
      with ng c show ?thesis by simp
    next
      case True
      show ?thesis
      proof (cases "update_position ?b s")
        case (Inl e)
        with True c show ?thesis by simp
      next
        case (Inr s1)
        note p = update_position_events[OF Inr]
        show ?thesis
        proof (cases "update_status ?b s1")
          case (Inl e)
          with True Inr p le c show ?thesis by (simp add: put_state_capped)
        next
          case s2: (Inr s2)
          note q = update_status_events[OF s2]
          let ?s3 = "s2\<lparr>health := dict_get (b_health ?b) (health s2),
                        hunger := dict_get (b_hunger ?b) (hunger s2),
                        current_task := dict_get (b_currentTask ?b) (current_task s2),
                        mission_queue := (case b_mission ?b of
                                            None \<Rightarrow> mission_queue s2
                                          | Some m \<Rightarrow> mission_queue s2 @ [m])\<rparr>"
          have "telemetry_capped (put_state a1 ?s3)"
            using c le p q by (simp add: put_state_capped)
          then have "telemetry_capped (fst (save_state now (put_state a1 ?s3)))"
            by (rule save_state_capped)
          with True Inr s2 show ?thesis
            by (auto simp: Let_def split: prod.splits sum.splits)
        qed
      qed
    qed
  qed
qed


lemma save_put_capped:
  assumes "save_state now (put_state a1 s') = (a2, r)"
    and "telemetry_capped a1" and "length (telemetry_events s') \<le> 100"
  shows "telemetry_capped a2"
  using save_state_capped[OF put_state_capped[OF assms(2,3)], of now] assms(1) by simp

lemma log_telemetry_result_capped:
  assumes "log_telemetry now event_type data a1 = (a2, r)" and "telemetry_capped a1"
  shows "telemetry_capped a2"
  using log_telemetry_capped[OF assms(2), of now event_type data] assms(1) by simp

lemma handle_mission_capped:
  assumes "telemetry_capped a"
  shows "telemetry_capped (fst (handle_mission req now a))"
  unfolding handle_mission_def
proof (rule with_state_capped[OF assms], goal_cases)
  case (1 a1 s)
  then have le: "length (telemetry_events s) \<le> 100" by (rule telemetry_capped_state)
  with 1(1) show ?case
    by (auto simp: Let_def split: list.splits prod.splits sum.splits
        elim: save_put_capped)
qed

lemma handle_telemetry_capped:
  assumes "telemetry_capped a"
  shows "telemetry_capped (fst (handle_telemetry req now a))"
  unfolding handle_telemetry_def
proof (rule with_state_capped[OF assms], goal_cases)
  case (1 a1 s)
  then show ?case
    by (auto simp: Let_def split: prod.splits sum.splits elim: log_telemetry_result_capped)
qed

lemma handle_tactical_capped:
  assumes "telemetry_capped a"
  shows "telemetry_capped (fst (handle_tactical req now a))"
  unfolding handle_tactical_def decision_to_dict_def
proof (rule with_state_capped[OF assms], goal_cases)
  case (1 a1 s)
  then have le: "length (telemetry_events s) \<le> 100" by (rule telemetry_capped_state)
  with 1(1) show ?case
    by (auto simp: put_state_capped update_position_events tactical_analysis_events
        split: prod.splits sum.splits)
qed

lemma handle_health_capped:
  "telemetry_capped a \<Longrightarrow> telemetry_capped (fst (handle_health now a))"
  by (simp add: handle_health_def)

lemma route_capped: "telemetry_capped a \<Longrightarrow> telemetry_capped (fst (route req now a))"
  by (simp add: route_def handle_sync_capped handle_mission_capped handle_tactical_capped
      handle_telemetry_capped handle_health_capped)

lemma fetch_capped:
  assumes "telemetry_capped a"
  shows "telemetry_capped (fst (fetch req now a))"
proof -
  obtain a1 r where rt: "route req now a = (a1, r)" by (cases "route req now a")
  have c1: "telemetry_capped a1" using route_capped[OF assms, of req now] rt by simp
  show ?thesis
  proof (cases r)
    case (Inr resp)
    with rt c1 show ?thesis by (simp add: fetch_def)
  next
    case (Inl e)
    have "telemetry_capped (fst (log_error now ''fetch'' (str_error e) a1))"
      unfolding log_error_def using c1 by (rule log_telemetry_capped)
    with rt Inl show ?thesis by (auto simp: fetch_def split: prod.splits sum.splits)
  qed
qed

lemma restart_capped: "telemetry_capped a \<Longrightarrow> telemetry_capped (restart a)"
  by (simp add: restart_def telemetry_capped_def)

lemma run_capped: "telemetry_capped a \<Longrightarrow> telemetry_capped (run ops a)"
  by (induction ops a rule: run.induct) (simp_all add: fetch_capped restart_capped)


lemma save_state_events:
  "state_data a = Some s \<Longrightarrow>
    map_option telemetry_events (state_data (fst (save_state now a))) = Some (telemetry_events s)"
  by (simp add: save_state_def split: sum.splits)

lemma last_n_append_one:
  "last_n 100 (xs @ [x]) = (if length xs < 100 then xs @ [x] else drop (length xs - 99) xs @ [x])"
  by (simp add: last_n_def)

lemma log_telemetry_events:
  assumes "state_data a = Some s"
  shows "map_option telemetry_events (state_data (fst (log_telemetry now event_type data a)))
    = Some (last_n 100 (telemetry_events s
        @ [JObj [(''type'', JStr event_type), (''data'', data), (''timestamp'', JIso now)]]))"
proof -
  let ?ev = "JObj [(''type'', JStr event_type), (''data'', data), (''timestamp'', JIso now)]"
  have "(if length (telemetry_events s @ [?ev]) > 100 then last_n 100 (telemetry_events s @ [?ev])
         else telemetry_events s @ [?ev]) = last_n 100 (telemetry_events s @ [?ev])"
    by (simp add: last_n_def)
  then show ?thesis
    using save_state_events[of "put_state a (s\<lparr>telemetry_events := last_n 100 (telemetry_events s @ [?ev])\<rparr>)"
        "s\<lparr>telemetry_events := last_n 100 (telemetry_events s @ [?ev])\<rparr>" now] assms
    by (simp add: log_telemetry_def with_state_loaded Let_def put_state_def)
qed

text \<open>
  Claim C6: after every sequence of requests (sync, mission, tactical, telemetry, health,
  with the writes to storage they make) and restarts of a new actor, the telemetry events
  of the state in memory and those of the stored dictionary are at most 100; the cap is
  kept by every such sequence from any actor that satisfies it. \<open>_log_telemetry\<close> on a
  loaded state leaves the last 100 of the old events followed by the new one: below 100
  events nothing is dropped, otherwise the oldest are, and only the newest 99 of the old
  events stay in front of the new event. \<open>_serialize_state\<close> writes the last 100 events.
\<close>

theorem telemetry_events_capped:
  "(\<forall>s. state_data (run ops (new_actor oid)) = Some s \<longrightarrow> length (telemetry_events s) \<le> 100)
   \<and> (\<forall>d. storage (run ops (new_actor oid)) = Some d \<longrightarrow> length (stored_events d) \<le> 100)
   \<and> (telemetry_capped a \<longrightarrow> telemetry_capped (run ops a))
   \<and> (state_data a = Some s \<longrightarrow>
        map_option telemetry_events (state_data (fst (log_telemetry now event_type data a)))
          = Some (if length (telemetry_events s) < 100
                  then telemetry_events s
                       @ [JObj [(''type'', JStr event_type), (''data'', data), (''timestamp'', JIso now)]]
                  else drop (length (telemetry_events s) - 99) (telemetry_events s)
                       @ [JObj [(''type'', JStr event_type), (''data'', data), (''timestamp'', JIso now)]]))
   \<and> (serialize_state s = Inr d \<longrightarrow>
        stored_events d = drop (length (telemetry_events s) - 100) (telemetry_events s))"
proof -
  have "telemetry_capped (new_actor oid)"
    by (simp add: telemetry_capped_def new_actor_def)
  then have c: "telemetry_capped (run ops (new_actor oid))" by (rule run_capped)
  have 1: "\<forall>s. state_data (run ops (new_actor oid)) = Some s \<longrightarrow> length (telemetry_events s) \<le> 100"
    using c by (auto simp: telemetry_capped_def split: option.splits)
  have 2: "\<forall>d. storage (run ops (new_actor oid)) = Some d \<longrightarrow> length (stored_events d) \<le> 100"
    using c by (auto simp: telemetry_capped_def split: option.splits)
  have 3: "telemetry_capped a \<longrightarrow> telemetry_capped (run ops a)"
    by (simp add: run_capped)
  have 4: "state_data a = Some s \<longrightarrow>
        map_option telemetry_events (state_data (fst (log_telemetry now event_type data a)))
          = Some (if length (telemetry_events s) < 100
                  then telemetry_events s
                       @ [JObj [(''type'', JStr event_type), (''data'', data), (''timestamp'', JIso now)]]
                  else drop (length (telemetry_events s) - 99) (telemetry_events s)
                       @ [JObj [(''type'', JStr event_type), (''data'', data), (''timestamp'', JIso now)]])"
    using log_telemetry_events[of a s now event_type data]
    by (simp only: last_n_append_one) simp
  have 5: "serialize_state s = Inr d \<longrightarrow>
        stored_events d = drop (length (telemetry_events s) - 100) (telemetry_events s)"
    using stored_events_serialize[of s d] by (simp add: last_n_def)
  from 1 2 3 4 5 show ?thesis by blast
qed


theorem telemetry_events_capped_witness:
  "state_data (run [Fetch \<lparr>req_method = ''POST'', req_path = ''/agents/steve/telemetry'',
        req_body = \<lparr>b_position = None, b_status = None, b_health = None, b_hunger = None,
          b_currentTask = None, b_mission = None, b_nearbyEntities = None, b_nearbyBlocks = None,
          b_combatScore = None, b_type = Some ''ping'', b_data = Some JNull\<rparr>\<rparr> 5]
      (new_actor ''steve''))
    = Some ((initial_state ''steve'' 5)
        \<lparr>telemetry_events := [JObj [(''type'', JStr ''ping''), (''data'', JNull), (''timestamp'', JIso 5)]]\<rparr>)
   \<and> length (telemetry_events ((initial_state ''steve'' 5)
        \<lparr>telemetry_events := [JObj [(''type'', JStr ''ping''), (''data'', JNull), (''timestamp'', JIso 5)]]\<rparr>))
       \<le> 100
   \<and> telemetry_capped (put_state (new_actor ''steve'')
        ((initial_state ''steve'' 0)\<lparr>telemetry_events := replicate 100 JNull\<rparr>))
   \<and> telemetry_capped (run [Restart]
        (put_state (new_actor ''steve'') ((initial_state ''steve'' 0)\<lparr>telemetry_events := replicate 100 JNull\<rparr>)))
   \<and> map_option telemetry_events (state_data (fst (log_telemetry 5 ''ping'' JNull
        (put_state (new_actor ''steve'') ((initial_state ''steve'' 0)\<lparr>telemetry_events := replicate 100 JNull\<rparr>)))))
      = Some (replicate 99 JNull @ [JObj [(''type'', JStr ''ping''), (''data'', JNull), (''timestamp'', JIso 5)]])
   \<and> (\<exists>d. serialize_state ((initial_state ''steve'' 0)\<lparr>telemetry_events := replicate 100 JNull\<rparr>) = Inr d
          \<and> stored_events d = replicate 100 JNull)"
proof -
  let ?req = "\<lparr>req_method = ''POST'', req_path = ''/agents/steve/telemetry'',
        req_body = \<lparr>b_position = None, b_status = None, b_health = None, b_hunger = None,
          b_currentTask = None, b_mission = None, b_nearbyEntities = None, b_nearbyBlocks = None,
          b_combatScore = None, b_type = Some ''ping'', b_data = Some JNull\<rparr>\<rparr>"
  let ?s1 = "(initial_state ''steve'' 5)
        \<lparr>telemetry_events := [JObj [(''type'', JStr ''ping''), (''data'', JNull), (''timestamp'', JIso 5)]]\<rparr>"
  let ?s100 = "(initial_state ''steve'' 0)\<lparr>telemetry_events := replicate 100 JNull\<rparr>"
  let ?a100 = "put_state (new_actor ''steve'') ?s100"
  have r: "state_data (run [Fetch ?req 5] (new_actor ''steve'')) = Some ?s1"
    by (simp add: fetch_def route_def endswith_def handle_telemetry_def with_state_def
        ensure_loaded_def save_state_def new_actor_def serialize_state_def initial_state_def
        log_telemetry_def put_state_def dict_get_def Let_def)
  have c: "telemetry_capped ?a100"
    by (simp add: telemetry_capped_def put_state_def new_actor_def)
  have st: "state_data ?a100 = Some ?s100" by (simp add: put_state_def)
  obtain d where d: "serialize_state ?s100 = Inr d"
    by (simp add: serialize_state_def initial_state_def)
  note t = telemetry_events_capped[of "[Fetch ?req 5]" "''steve''" ?a100 ?s100 5 "''ping''" JNull d]
  note t' = telemetry_events_capped[of "[Restart]" "''steve''" ?a100 ?s100 5 "''ping''" JNull d]
  have l: "length (telemetry_events ?s1) \<le> 100" using t r by blast
  have k: "telemetry_capped (run [Restart] ?a100)" using t' c by blast
  have m: "map_option telemetry_events (state_data (fst (log_telemetry 5 ''ping'' JNull ?a100)))
      = Some (replicate 99 JNull @ [JObj [(''type'', JStr ''ping''), (''data'', JNull), (''timestamp'', JIso 5)]])"
    using t st by simp
  have e: "stored_events d = replicate 100 JNull" using t d by simp
  from r l c k m d e show ?thesis by blast
qed

subsection \<open>Mission queue\<close>

lemma serialize_state_mission_queue:
  "serialize_state s = Inr d \<Longrightarrow> \<exists>d'. serialize_state (s\<lparr>mission_queue := q\<rparr>) = Inr d'"
  by (auto simp: serialize_state_def split: sum.splits)

text \<open>
  On a loaded state that can be written to storage the handler is a queue: POST with a
  mission appends it and answers the new length, POST without one (or with an empty one)
  answers 400 and changes nothing, DELETE removes the head and answers it, DELETE on
  the empty queue answers 404 and changes nothing.
\<close>

lemma handle_mission_post:
  assumes "state_data a = Some s" and "req_method req = ''POST''"
    and "b_mission (req_body req) = Some m" and "truthy m"
    and "serialize_state (s\<lparr>mission_queue := mission_queue s @ [m]\<rparr>) = Inr d"
  shows "handle_mission req now a =
    (a\<lparr>storage := Some d,
       state_data := Some (s\<lparr>mission_queue := mission_queue s @ [m], last_active := now\<rparr>)\<rparr>,
     Inr (json_response 200 (JObj [(''status'', JStr ''queued''),
            (''queueLength'', JInt (int (length (mission_queue s @ [m]))))])))"
  using assms
  by (simp add: handle_mission_def with_state_loaded dict_get_def Let_def save_state_def put_state_def)

lemma handle_mission_post_missing:
  assumes "state_data a = Some s" and "req_method req = ''POST''"
    and "\<not> truthy (dict_get (b_mission (req_body req)) JNull)"
  shows "handle_mission req now a =
    (a, Inr (json_response 400 (JObj [(''error'', JStr ''Missing mission'')])))"
  using assms by (simp add: handle_mission_def with_state_loaded Let_def)

lemma handle_mission_delete:
  assumes "state_data a = Some s" and "req_method req = ''DELETE''"
    and "mission_queue s = m # rest"
    and "serialize_state (s\<lparr>mission_queue := rest\<rparr>) = Inr d"
  shows "handle_mission req now a =
    (a\<lparr>storage := Some d, state_data := Some (s\<lparr>mission_queue := rest, last_active := now\<rparr>)\<rparr>,
     Inr (json_response 200 (JObj [(''completed'', m)])))"
  using assms
  by (simp add: handle_mission_def with_state_loaded save_state_def put_state_def)

lemma handle_mission_delete_empty:
  assumes "state_data a = Some s" and "req_method req = ''DELETE''" and "mission_queue s = []"
  shows "handle_mission req now a =
    (a, Inr (json_response 404 (JObj [(''error'', JStr ''No missions to complete'')])))"
  using assms by (simp add: handle_mission_def with_state_loaded)

text \<open>In memory the queue changes in the same way when the state cannot be written.\<close>

lemma handle_mission_post_queue:
  assumes "state_data a = Some s" and "req_method req = ''POST''"
    and "b_mission (req_body req) = Some m" and "truthy m"
  shows "map_option mission_queue (state_data (fst (handle_mission req now a)))
    = Some (mission_queue s @ [m])"
  using assms
  by (simp add: handle_mission_def with_state_loaded dict_get_def Let_def save_state_def put_state_def
      split: sum.splits)

lemma handle_mission_delete_queue:
  assumes "state_data a = Some s" and "req_method req = ''DELETE''"
  shows "map_option mission_queue (state_data (fst (handle_mission req now a)))
    = Some (tl (mission_queue s))"
  using assms
  by (simp add: handle_mission_def with_state_loaded save_state_def put_state_def
      split: sum.splits list.splits)


lemma serialize_state_tactical_threat:
  "active_threats s = TacticalThreat t # ts \<Longrightarrow> serialize_state s = Inl AttributeError"
  by (simp add: serialize_state_def)

lemma save_state_raises:
  "state_data a = Some s \<Longrightarrow> serialize_state s = Inl e \<Longrightarrow> save_state now a = (a, Inl e)"
  by (simp add: save_state_def)

text \<open>While the state holds a threat of the decision engine, logging an event raises.\<close>

lemma log_telemetry_raises:
  assumes "state_data a = Some s" and "active_threats s = TacticalThreat t # ts"
  shows "log_telemetry now event_type data a =
    (put_state a (s\<lparr>telemetry_events := last_n 100 (telemetry_events s
        @ [JObj [(''type'', JStr event_type), (''data'', data), (''timestamp'', JIso now)]])\<rparr>),
     Inl AttributeError)"
proof -
  let ?ev = "JObj [(''type'', JStr event_type), (''data'', data), (''timestamp'', JIso now)]"
  let ?s' = "s\<lparr>telemetry_events := last_n 100 (telemetry_events s @ [?ev])\<rparr>"
  have i: "(if length (telemetry_events s @ [?ev]) > 100 then last_n 100 (telemetry_events s @ [?ev])
         else telemetry_events s @ [?ev]) = last_n 100 (telemetry_events s @ [?ev])"
    by (simp add: last_n_def)
  have "serialize_state ?s' = Inl AttributeError"
    using assms(2) by (simp add: serialize_state_tactical_threat)
  then have "save_state now (put_state a ?s') = (put_state a ?s', Inl AttributeError)"
    by (intro save_state_raises) (simp_all add: put_state_def)
  with assms(1) i show ?thesis
    by (simp add: log_telemetry_def with_state_loaded Let_def)
qed

text \<open>A mission request that changes the queue raises as well: the exception leaves
  \<open>fetch\<close>, and the queue is changed in memory and not in storage.\<close>

lemma fetch_mission_post_raises:
  assumes "state_data a = Some s" and "active_threats s = TacticalThreat t # ts"
    and "req_method req = ''POST''" and "endswith (req_path req) ''/mission''"
    and "\<not> endswith (req_path req) ''/sync''"
    and "b_mission (req_body req) = Some m" and "truthy m"
  shows "fetch req now a =
    (put_state a (s\<lparr>mission_queue := mission_queue s @ [m],
        telemetry_events := last_n 100 (telemetry_events s
        @ [JObj [(''type'', JStr ''error''),
                 (''data'', JObj [(''context'', JStr ''fetch''), (''message'', JStr ''AttributeError'')]),
                 (''timestamp'', JIso now)]])\<rparr>),
     Inl AttributeError)"
proof -
  let ?s1 = "s\<lparr>mission_queue := mission_queue s @ [m]\<rparr>"
  have "serialize_state ?s1 = Inl AttributeError"
    using assms(2) by (simp add: serialize_state_tactical_threat)
  then have "save_state now (put_state a ?s1) = (put_state a ?s1, Inl AttributeError)"
    by (intro save_state_raises) (simp_all add: put_state_def)
  then have h: "handle_mission req now a = (put_state a ?s1, Inl AttributeError)"
    using assms by (simp add: handle_mission_def with_state_loaded dict_get_def Let_def)
  have l: "log_telemetry now ''error''
      (JObj [(''context'', JStr ''fetch''), (''message'', JStr ''AttributeError'')]) (put_state a ?s1)
    = (put_state (put_state a ?s1) (?s1\<lparr>telemetry_events := last_n 100 (telemetry_events ?s1
        @ [JObj [(''type'', JStr ''error''),
                 (''data'', JObj [(''context'', JStr ''fetch''), (''message'', JStr ''AttributeError'')]),
                 (''timestamp'', JIso now)]])\<rparr>), Inl AttributeError)"
    by (rule log_telemetry_raises[where t = t and ts = ts]) (simp_all add: put_state_def assms(2))
  show ?thesis
    using assms(4,5) h l by (simp add: fetch_def route_def log_error_def put_state_def)
qed

lemma fetch_mission_delete_raises:
  assumes "state_data a = Some s" and "active_threats s = TacticalThreat t # ts"
    and "req_method req = ''DELETE''" and "endswith (req_path req) ''/mission''"
    and "\<not> endswith (req_path req) ''/sync''"
    and "mission_queue s = m # rest"
  shows "fetch req now a =
    (put_state a (s\<lparr>mission_queue := rest,
        telemetry_events := last_n 100 (telemetry_events s
        @ [JObj [(''type'', JStr ''error''),
                 (''data'', JObj [(''context'', JStr ''fetch''), (''message'', JStr ''AttributeError'')]),
                 (''timestamp'', JIso now)]])\<rparr>),
     Inl AttributeError)"
proof -
  let ?s1 = "s\<lparr>mission_queue := rest\<rparr>"
  have "serialize_state ?s1 = Inl AttributeError"
    using assms(2) by (simp add: serialize_state_tactical_threat)
  then have "save_state now (put_state a ?s1) = (put_state a ?s1, Inl AttributeError)"
    by (intro save_state_raises) (simp_all add: put_state_def)
  then have h: "handle_mission req now a = (put_state a ?s1, Inl AttributeError)"
    using assms by (simp add: handle_mission_def with_state_loaded)
  have l: "log_telemetry now ''error''
      (JObj [(''context'', JStr ''fetch''), (''message'', JStr ''AttributeError'')]) (put_state a ?s1)
    = (put_state (put_state a ?s1) (?s1\<lparr>telemetry_events := last_n 100 (telemetry_events ?s1
        @ [JObj [(''type'', JStr ''error''),
                 (''data'', JObj [(''context'', JStr ''fetch''), (''message'', JStr ''AttributeError'')]),
                 (''timestamp'', JIso now)]])\<rparr>), Inl AttributeError)"
    by (rule log_telemetry_raises[where t = t and ts = ts]) (simp_all add: put_state_def assms(2))
  show ?thesis
    using assms(4,5) h l by (simp add: fetch_def route_def log_error_def put_state_def)
qed


lemma mission_path:
  "endswith ''/agents/steve/mission'' ''/mission''" "\<not> endswith ''/agents/steve/mission'' ''/sync''"
  by (simp_all add: endswith_def)

lemma fetch_tactical_new_actor:
  "fetch \<lparr>req_method = ''POST'', req_path = ''/agents/steve/tactical'',
          req_body = empty_body\<lparr>b_nearbyEntities :=
            Some [\<lparr>ent_type = Some ''warden'', ent_x = Some 0, ent_y = Some 64,
                    ent_z = Some 0, ent_health = None\<rparr>]\<rparr>\<rparr>
      11 (new_actor ''steve'')
    = (\<lparr>object_id = ''steve'',
        storage = Some (JObj [(''agentId'', JStr ''steve''), (''status'', JStr ''idle''),
                 (''position'', JObj [(''x'', JFloat 0), (''y'', JFloat 64), (''z'', JFloat 0)]),
                 (''health'', JInt 20), (''hunger'', JInt 20), (''currentTask'', JNull),
                 (''inventorySlots'', JInt 36), (''lastActive'', JIso 11),
                 (''activeThreats'', JList []), (''knownHazards'', JList []),
                 (''missionQueue'', JList []), (''telemetryEvents'', JList [])]),
        self_agent_id = Some ''steve'',
        state_data = Some ((initial_state ''steve'' 11)
          \<lparr>active_threats := [TacticalThreat \<lparr>entity_type = ''warden'',
                  threat_position = \<lparr>pos_x = 0, pos_y = 64, pos_z = 0\<rparr>,
                  distance = 0, danger_level = 3/5, estimated_health = 20\<rparr>],
           telemetry_events := [JObj [(''type'', JStr ''error''),
                 (''data'', JObj [(''context'', JStr ''fetch''), (''message'', JStr ''AttributeError'')]),
                 (''timestamp'', JIso 11)]]\<rparr>)\<rparr>,
       Inl AttributeError)"
  by (simp add: fetch_def route_def endswith_def handle_tactical_def with_state_def
      ensure_loaded_def save_state_def new_actor_def serialize_state_def initial_state_def
      position_to_dict_def json_of_task_def last_n_def update_position_def
      tactical_analysis_def call_assess_threats_def call_detect_hazards_def
      call_get_quick_decision_def dict_get_def Let_def decision_to_dict_def
      assess_threats_warden_healthy detect_hazards_no_blocks empty_body_def
      log_error_def log_telemetry_def put_state_def)

text \<open>
  Claim C5 fails on the code. A tactical request that finds a threat leaves in the state
  an object of \<open>tactical.Threat\<close>, which has no \<open>to_dict\<close>, and from then on
  \<open>_save_state\<close> raises \<open>AttributeError\<close>. On a new actor, after such a request, missions
  A and B are posted and the head is deleted: the POST and the DELETE raise instead of
  answering, DELETE does not return A; the queue in memory is then [B], and after a
  restart the queue read from storage is empty.
\<close>

theorem mission_queue_after_tactical_raises:
  "snd (fetch \<lparr>req_method = ''POST'', req_path = ''/agents/steve/mission'',
               req_body = empty_body\<lparr>b_mission := Some (JStr ''A'')\<rparr>\<rparr> 12
        (run [Fetch \<lparr>req_method = ''POST'', req_path = ''/agents/steve/tactical'',
                req_body = empty_body\<lparr>b_nearbyEntities :=
                  Some [\<lparr>ent_type = Some ''warden'', ent_x = Some 0, ent_y = Some 64,
                          ent_z = Some 0, ent_health = None\<rparr>]\<rparr>\<rparr> 11]
          (new_actor ''steve'')))
    = Inl AttributeError
   \<and> snd (fetch \<lparr>req_method = ''DELETE'', req_path = ''/agents/steve/mission'', req_body = empty_body\<rparr> 14
        (run [Fetch \<lparr>req_method = ''POST'', req_path = ''/agents/steve/tactical'',
                req_body = empty_body\<lparr>b_nearbyEntities :=
                  Some [\<lparr>ent_type = Some ''warden'', ent_x = Some 0, ent_y = Some 64,
                          ent_z = Some 0, ent_health = None\<rparr>]\<rparr>\<rparr> 11,
              Fetch \<lparr>req_method = ''POST'', req_path = ''/agents/steve/mission'',
                req_body = empty_body\<lparr>b_mission := Some (JStr ''A'')\<rparr>\<rparr> 12,
              Fetch \<lparr>req_method = ''POST'', req_path = ''/agents/steve/mission'',
                req_body = empty_body\<lparr>b_mission := Some (JStr ''B'')\<rparr>\<rparr> 13]
          (new_actor ''steve'')))
    = Inl AttributeError
   \<and> map_option mission_queue (state_data
        (run [Fetch \<lparr>req_method = ''POST'', req_path = ''/agents/steve/tactical'',
                req_body = empty_body\<lparr>b_nearbyEntities :=
                  Some [\<lparr>ent_type = Some ''warden'', ent_x = Some 0, ent_y = Some 64,
                          ent_z = Some 0, ent_health = None\<rparr>]\<rparr>\<rparr> 11,
              Fetch \<lparr>req_method = ''POST'', req_path = ''/agents/steve/mission'',
                req_body = empty_body\<lparr>b_mission := Some (JStr ''A'')\<rparr>\<rparr> 12,
              Fetch \<lparr>req_method = ''POST'', req_path = ''/agents/steve/mission'',
                req_body = empty_body\<lparr>b_mission := Some (JStr ''B'')\<rparr>\<rparr> 13,
              Fetch \<lparr>req_method = ''DELETE'', req_path = ''/agents/steve/mission'',
                req_body = empty_body\<rparr> 14]
          (new_actor ''steve'')))
    = Some [JStr ''B'']
   \<and> snd (fetch \<lparr>req_method = ''GET'', req_path = ''/agents/steve/mission'', req_body = empty_body\<rparr> 16
        (run [Fetch \<lparr>req_method = ''POST'', req_path = ''/agents/steve/tactical'',
                req_body = empty_body\<lparr>b_nearbyEntities :=
                  Some [\<lparr>ent_type = Some ''warden'', ent_x = Some 0, ent_y = Some 64,
                          ent_z = Some 0, ent_health = None\<rparr>]\<rparr>\<rparr> 11,
              Fetch \<lparr>req_method = ''POST'', req_path = ''/agents/steve/mission'',
                req_body = empty_body\<lparr>b_mission := Some (JStr ''A'')\<rparr>\<rparr> 12,
              Fetch \<lparr>req_method = ''POST'', req_path = ''/agents/steve/mission'',
                req_body = empty_body\<lparr>b_mission := Some (JStr ''B'')\<rparr>\<rparr> 13,
              Fetch \<lparr>req_method = ''DELETE'', req_path = ''/agents/steve/mission'',
                req_body = empty_body\<rparr> 14,
              Restart]
          (new_actor ''steve'')))
    = Inr (json_response 200
        (JObj [(''agentId'', JStr ''steve''), (''missions'', JList []), (''current'', JNull)]))"
proof -
  let ?tac = "\<lparr>req_method = ''POST'', req_path = ''/agents/steve/tactical'',
                req_body = empty_body\<lparr>b_nearbyEntities :=
                  Some [\<lparr>ent_type = Some ''warden'', ent_x = Some 0, ent_y = Some 64,
                          ent_z = Some 0, ent_health = None\<rparr>]\<rparr>\<rparr>"
  let ?postA = "\<lparr>req_method = ''POST'', req_path = ''/agents/steve/mission'',
                req_body = empty_body\<lparr>b_mission := Some (JStr ''A'')\<rparr>\<rparr>"
  let ?postB = "\<lparr>req_method = ''POST'', req_path = ''/agents/steve/mission'',
                req_body = empty_body\<lparr>b_mission := Some (JStr ''B'')\<rparr>\<rparr>"
  let ?del = "\<lparr>req_method = ''DELETE'', req_path = ''/agents/steve/mission'', req_body = empty_body\<rparr>"
  let ?get = "\<lparr>req_method = ''GET'', req_path = ''/agents/steve/mission'', req_body = empty_body\<rparr>"
  let ?w = "\<lparr>entity_type = ''warden'', threat_position = \<lparr>pos_x = 0, pos_y = 64, pos_z = 0\<rparr>,
             distance = 0, danger_level = 3/5, estimated_health = 20\<rparr>"
  let ?d0 = "JObj [(''agentId'', JStr ''steve''), (''status'', JStr ''idle''),
                 (''position'', JObj [(''x'', JFloat 0), (''y'', JFloat 64), (''z'', JFloat 0)]),
                 (''health'', JInt 20), (''hunger'', JInt 20), (''currentTask'', JNull),
                 (''inventorySlots'', JInt 36), (''lastActive'', JIso 11),
                 (''activeThreats'', JList []), (''knownHazards'', JList []),
                 (''missionQueue'', JList []), (''telemetryEvents'', JList [])]"
  define a1 where "a1 = fst (fetch ?tac 11 (new_actor ''steve''))"
  obtain s1 where s1: "state_data a1 = Some s1" "active_threats s1 = [TacticalThreat ?w]"
      "mission_queue s1 = []" and sto1: "storage a1 = Some ?d0"
    unfolding a1_def fetch_tactical_new_actor by (simp add: initial_state_def)
  have pa: "fetch ?postA 12 a1 = (put_state a1 (s1\<lparr>mission_queue := mission_queue s1 @ [JStr ''A''],
        telemetry_events := last_n 100 (telemetry_events s1
        @ [JObj [(''type'', JStr ''error''),
                 (''data'', JObj [(''context'', JStr ''fetch''), (''message'', JStr ''AttributeError'')]),
                 (''timestamp'', JIso 12)]])\<rparr>), Inl AttributeError)" (is "_ = (?a2, _)")
    by (rule fetch_mission_post_raises[where t = ?w and ts = "[]"])
       (simp_all add: s1 mission_path empty_body_def)
  have s2: "state_data ?a2 = Some (s1\<lparr>mission_queue := mission_queue s1 @ [JStr ''A''],
        telemetry_events := last_n 100 (telemetry_events s1
        @ [JObj [(''type'', JStr ''error''),
                 (''data'', JObj [(''context'', JStr ''fetch''), (''message'', JStr ''AttributeError'')]),
                 (''timestamp'', JIso 12)]])\<rparr>)" (is "_ = Some ?s2")
    by (simp add: put_state_def)
  have pb: "fetch ?postB 13 ?a2 = (put_state ?a2 (?s2\<lparr>mission_queue := mission_queue ?s2 @ [JStr ''B''],
        telemetry_events := last_n 100 (telemetry_events ?s2
        @ [JObj [(''type'', JStr ''error''),
                 (''data'', JObj [(''context'', JStr ''fetch''), (''message'', JStr ''AttributeError'')]),
                 (''timestamp'', JIso 13)]])\<rparr>), Inl AttributeError)" (is "_ = (?a3, _)")
    by (rule fetch_mission_post_raises[where t = ?w and ts = "[]"])
       (simp_all add: s1 put_state_def mission_path empty_body_def)
  have s3: "state_data ?a3 = Some (?s2\<lparr>mission_queue := mission_queue ?s2 @ [JStr ''B''],
        telemetry_events := last_n 100 (telemetry_events ?s2
        @ [JObj [(''type'', JStr ''error''),
                 (''data'', JObj [(''context'', JStr ''fetch''), (''message'', JStr ''AttributeError'')]),
                 (''timestamp'', JIso 13)]])\<rparr>)" (is "_ = Some ?s3")
    by (simp add: put_state_def)
  have pd: "fetch ?del 14 ?a3 = (put_state ?a3 (?s3\<lparr>mission_queue := [JStr ''B''],
        telemetry_events := last_n 100 (telemetry_events ?s3
        @ [JObj [(''type'', JStr ''error''),
                 (''data'', JObj [(''context'', JStr ''fetch''), (''message'', JStr ''AttributeError'')]),
                 (''timestamp'', JIso 14)]])\<rparr>), Inl AttributeError)" (is "_ = (?a4, _)")
    by (rule fetch_mission_delete_raises[where t = ?w and ts = "[]" and m = "JStr ''A''"])
       (simp_all add: s1 put_state_def mission_path)
  have sto4: "storage ?a4 = Some ?d0" "object_id ?a4 = object_id a1"
    by (simp_all add: put_state_def sto1)
  have d0: "deserialize_state ?d0 = Inr (initial_state ''steve'' 11)"
    by (simp add: deserialize_state_def then_result_def subscript_def get_or_def as_str_def
        as_int_def as_list_def as_task_def as_number_def fromisoformat_def position_from_dict_def
        AgentStatus_def initial_state_def)
  have pg: "snd (fetch ?get 16 (restart ?a4)) = Inr (json_response 200
        (JObj [(''agentId'', JStr ''steve''), (''missions'', JList []), (''current'', JNull)]))"
    using sto4 d0
    by (simp add: fetch_def route_def mission_path handle_mission_def with_state_def
        ensure_loaded_def restart_def initial_state_def json_of_task_def)
  have r1: "run [Fetch ?tac 11] (new_actor ''steve'') = a1" by (simp add: a1_def)
  have r3: "run [Fetch ?tac 11, Fetch ?postA 12, Fetch ?postB 13] (new_actor ''steve'') = ?a3"
    using pa pb by (simp add: a1_def[symmetric])
  have r4: "run [Fetch ?tac 11, Fetch ?postA 12, Fetch ?postB 13, Fetch ?del 14] (new_actor ''steve'') = ?a4"
    using pa pb pd by (simp add: a1_def[symmetric])
  have r5: "run [Fetch ?tac 11, Fetch ?postA 12, Fetch ?postB 13, Fetch ?del 14, Restart] (new_actor ''steve'')
      = restart ?a4"
    using pa pb pd by (simp add: a1_def[symmetric])
  show ?thesis
    unfolding r1 r3 r4 r5 using pa pd pg by (simp add: put_state_def)
qed

section \<open>Properties of the synchronisation manager\<close>

lemma last_n_if: "(if length xs > n then last_n n xs else xs) = last_n n xs"
  by (simp add: last_n_def)

lemma length_last_n: "length (last_n n xs) = min n (length xs)"
  by (simp add: last_n_def)

text \<open>
  The body of the method, over a transport that fails with \<open>e\<close>: one entry, the snapshot of
  the state, is appended to the pending updates, of which the last 10 are kept; the
  failure count grows by one, the error is recorded and raised again.
\<close>

lemma sync_state_body_failure:
  "sync_state_body (\<lambda>payload. Inl e) now agent_state m =
    (m\<lparr>sync_state := (sync_state m)
         \<lparr>last_sync := Some now, last_sync_success := False,
          sync_failures := sync_failures (sync_state m) + 1,
          last_error := Some (str_error e),
          pending_updates := last_n 10 (pending_updates (sync_state m)
             @ [JObj [(''timestamp'', JIso now), (''state'', agent_state)]])\<rparr>\<rparr>,
     Inl e)"
  by (simp add: sync_state_body_def Let_def last_n_if)

lemma sync_state_body_failure_length:
  "length (pending_updates (sync_state (fst (sync_state_body (\<lambda>payload. Inl e) now agent_state m))))
    = min 10 (length (pending_updates (sync_state m)) + 1)"
  by (simp add: sync_state_body_failure length_last_n)

text \<open>Over a transport that answers, the failure count and the pending updates are reset.\<close>

lemma sync_state_body_success:
  "sync_state_body (\<lambda>payload. Inr r) now agent_state m =
    (m\<lparr>sync_state := (sync_state m)
         \<lparr>last_sync := Some now, pending_updates := [], last_sync_success := True,
          sync_failures := 0, last_error := None\<rparr>\<rparr>,
     Inr r)"
  by (simp add: sync_state_body_def Let_def)

text \<open>The method as it is shipped never fails: its transport is the simulated one.\<close>

lemma SyncManager_sync_state_succeeds:
  "snd (SyncManager_sync_state now agent_state m) =
    Inr (JObj [(''status'', JStr ''synced''), (''missions'', JList []), (''configUpdates'', JObj [])])"
  by (simp add: SyncManager_sync_state_def sync_state_body_def simulated_send_def Let_def)

lemma getattr_sync_state: "getattr m ''sync_state'' = Inr (SyncStateValue (sync_state m))"
  by (simp add: getattr_def instance_dict_def)

text \<open>
  Claim C7 fails on the code: \<open>__init__\<close> stores the \<open>SyncState\<close> under the name of the
  method, so \<open>manager.sync_state(agent_state)\<close> finds the \<open>SyncState\<close> and raises
  \<open>TypeError\<close> (the object is not callable) before the body of the method runs. The call
  fails, and nothing is appended to the pending updates and the failure count stays 0.
\<close>

theorem call_sync_state_not_callable:
  "call_sync_state now agent_state (SyncManager_init cfg) = (SyncManager_init cfg, Inl TypeError)
   \<and> pending_updates (sync_state (fst (call_sync_state now agent_state (SyncManager_init cfg)))) = []
   \<and> sync_failures (sync_state (fst (call_sync_state now agent_state (SyncManager_init cfg)))) = 0
   \<and> last_error (sync_state (fst (call_sync_state now agent_state (SyncManager_init cfg)))) = None"
  by (simp add: call_sync_state_def getattr_sync_state SyncManager_init_def new_SyncState_def)

end
